theory Spec2Isabelle
  imports Complex_Main "HOL-Library.Product_Lexorder" "HOL-Library.Sublist" "HOL-Library.Multiset"
begin

section \<open>JavaScript values\<close>

text \<open>
  A JavaScript number is an IEEE double: a finite one is modelled by the real it
  denotes, beside \<open>NaN\<close> and the two infinities. The sign of zero is not modelled.
\<close>

datatype jsnum = Num real | NaN | PosInf | NegInf

text \<open>
  The values a slot of a parsed JSON feed is modelled to hold: absent (\<open>undefined\<close>),
  \<open>null\<close>, a boolean, a number or an array. Strings and objects in such a slot are
  not modelled.
\<close>

datatype jsval = JUndefined | JNull | JBool bool | JNum jsnum | JArr "jsval list"

datatype js_error = TypeError | RangeError | NetworkError string

text \<open>The state of a settled promise (\<open>Promise.allSettled\<close>).\<close>

datatype 'a settled = Fulfilled 'a | Rejected js_error

text \<open>
  \<open>ToNumber\<close>. An array is first joined to a string (\<open>null\<close> and \<open>undefined\<close>
  elements give the empty string) and the string is then read as a number: the empty
  string is 0, the text of a number is that number, and \<open>true\<close>, \<open>false\<close> and
  every text with a comma are \<open>NaN\<close>.
\<close>

fun toNumber :: "jsval \<Rightarrow> jsnum" where
  "toNumber JUndefined = NaN"
| "toNumber JNull = Num 0"
| "toNumber (JBool b) = (if b then Num 1 else Num 0)"
| "toNumber (JNum n) = n"
| "toNumber (JArr []) = Num 0"
| "toNumber (JArr [JUndefined]) = Num 0"
| "toNumber (JArr [JNull]) = Num 0"
| "toNumber (JArr [JBool b]) = NaN"
| "toNumber (JArr [JNum n]) = n"
| "toNumber (JArr [JArr ys]) = toNumber (JArr ys)"
| "toNumber (JArr (x # y # zs)) = NaN"

text \<open>\<open>ToBoolean\<close>: what \<open>!v\<close>, \<open>v && w\<close> and \<open>v || w\<close> test.\<close>

fun truthy :: "jsval \<Rightarrow> bool" where
  "truthy JUndefined = False"
| "truthy JNull = False"
| "truthy (JBool b) = b"
| "truthy (JNum (Num r)) = (r \<noteq> 0)"
| "truthy (JNum NaN) = False"
| "truthy (JNum PosInf) = True"
| "truthy (JNum NegInf) = True"
| "truthy (JArr xs) = True"

text \<open>The global \<open>isNaN(v)\<close>, which converts its argument with \<open>ToNumber\<close> first.\<close>

definition isNaN :: "jsval \<Rightarrow> bool" where
  "isNaN v = (toNumber v = NaN)"

subsection \<open>Rounding to the nearest double\<close>

text \<open>The integer nearest to \<open>y\<close>, the even one of the two on a tie.\<close>

definition round_half_even :: "real \<Rightarrow> int" where
  "round_half_even y =
     (let n = \<lfloor>y\<rfloor>; r = y - of_int n in
      if r < 1 / 2 then n else if 1 / 2 < r then n + 1 else if even n then n else n + 1)"

text \<open>The exponent \<open>e\<close> with \<open>2 ^ e \<le> x < 2 ^ (e + 1)\<close>, for a positive \<open>x\<close>.\<close>

function binade :: "real \<Rightarrow> int" where
  "binade x =
     (if x \<le> 0 then 0
      else if 2 \<le> x then binade (x / 2) + 1
      else if x < 1 then binade (x * 2) - 1
      else 0)"
  by pat_completeness auto
termination
proof (relation "measure (\<lambda>x. if 1 \<le> x then nat \<lfloor>x\<rfloor> else nat \<lceil>1 / x\<rceil>)")
  show "wf (measure (\<lambda>x. if 1 \<le> x then nat \<lfloor>x\<rfloor> else nat \<lceil>1 / x\<rceil>))"
    by simp
next
  fix x :: real
  assume "\<not> x \<le> 0" "2 \<le> x"
  then have "\<lfloor>x / 2\<rfloor> < \<lfloor>x\<rfloor>" "1 \<le> x / 2" "0 < \<lfloor>x\<rfloor>"
    by linarith+
  with \<open>2 \<le> x\<close> show "(x / 2, x) \<in> measure (\<lambda>x. if 1 \<le> x then nat \<lfloor>x\<rfloor> else nat \<lceil>1 / x\<rceil>)"
    by simp
next
  fix x :: real
  assume a: "\<not> x \<le> 0" "\<not> 2 \<le> x" "x < 1"
  then have pos: "0 < x"
    by simp
  have big: "1 < 1 / x"
    using a pos by (simp add: field_simps)
  show "(x * 2, x) \<in> measure (\<lambda>x. if 1 \<le> x then nat \<lfloor>x\<rfloor> else nat \<lceil>1 / x\<rceil>)"
  proof (cases "1 \<le> x * 2")
    case True
    with a have "\<lfloor>x * 2\<rfloor> = 1"
      by linarith
    moreover from big have "2 \<le> \<lceil>1 / x\<rceil>"
      by linarith
    ultimately show ?thesis
      using True a by simp
  next
    case False
    define y where "y = 1 / x"
    have half: "1 / (x * 2) = y / 2"
      by (simp add: y_def)
    from False pos have "2 < y"
      by (simp add: y_def field_simps)
    then have "\<lceil>y / 2\<rceil> < \<lceil>y\<rceil>" "0 < \<lceil>y\<rceil>"
      by linarith+
    then show ?thesis
      using False a by (simp add: half) (simp add: y_def)
  qed
qed

declare binade.simps [simp del]

text \<open>
  A non-negative real rounded to the nearest double, ties to the even significand: 53
  bits of significand from the exponent of \<open>x\<close> down, the exponent not below that of
  the subnormal numbers, and an infinity where the rounded value leaves the range.
\<close>

definition round_pos :: "real \<Rightarrow> jsnum" where
  "round_pos x =
     (if x = 0 then Num 0
      else
        (let e = max (binade x) (- 1022);
             q = 2 powi (e - 52);
             r = of_int (round_half_even (x / q)) * q
         in if 2 ^ 1024 \<le> r then PosInf else Num r))"

fun js_neg :: "jsnum \<Rightarrow> jsnum" where
  "js_neg (Num a) = Num (- a)"
| "js_neg NaN = NaN"
| "js_neg PosInf = NegInf"
| "js_neg NegInf = PosInf"

text \<open>
  The double a real is rounded to: what a decimal literal denotes, and what an
  arithmetic operation returns for its exact result.
\<close>

definition round_double :: "real \<Rightarrow> jsnum" where
  "round_double x = (if x < 0 then js_neg (round_pos (- x)) else round_pos x)"

subsection \<open>Arithmetic and comparison\<close>

text \<open>\<open>a - b\<close>, \<open>a + b\<close> and \<open>a * b\<close> on numbers.\<close>

fun js_sub :: "jsnum \<Rightarrow> jsnum \<Rightarrow> jsnum" where
  "js_sub (Num a) (Num b) = round_double (a - b)"
| "js_sub NaN b = NaN"
| "js_sub a NaN = NaN"
| "js_sub PosInf PosInf = NaN"
| "js_sub NegInf NegInf = NaN"
| "js_sub PosInf b = PosInf"
| "js_sub NegInf b = NegInf"
| "js_sub a PosInf = NegInf"
| "js_sub a NegInf = PosInf"

fun js_add :: "jsnum \<Rightarrow> jsnum \<Rightarrow> jsnum" where
  "js_add (Num a) (Num b) = round_double (a + b)"
| "js_add NaN b = NaN"
| "js_add a NaN = NaN"
| "js_add PosInf NegInf = NaN"
| "js_add NegInf PosInf = NaN"
| "js_add PosInf b = PosInf"
| "js_add NegInf b = NegInf"
| "js_add a PosInf = PosInf"
| "js_add a NegInf = NegInf"

fun js_mul :: "jsnum \<Rightarrow> jsnum \<Rightarrow> jsnum" where
  "js_mul (Num a) (Num b) = round_double (a * b)"
| "js_mul NaN b = NaN"
| "js_mul a NaN = NaN"
| "js_mul PosInf (Num b) = (if b = 0 then NaN else if 0 < b then PosInf else NegInf)"
| "js_mul NegInf (Num b) = (if b = 0 then NaN else if 0 < b then NegInf else PosInf)"
| "js_mul (Num a) PosInf = (if a = 0 then NaN else if 0 < a then PosInf else NegInf)"
| "js_mul (Num a) NegInf = (if a = 0 then NaN else if 0 < a then NegInf else PosInf)"
| "js_mul PosInf PosInf = PosInf"
| "js_mul NegInf NegInf = PosInf"
| "js_mul PosInf NegInf = NegInf"
| "js_mul NegInf PosInf = NegInf"

text \<open>\<open>Math.abs(a)\<close>, \<open>a < b\<close> and \<open>a >= b\<close> on numbers.\<close>

fun js_abs :: "jsnum \<Rightarrow> jsnum" where
  "js_abs (Num a) = Num \<bar>a\<bar>"
| "js_abs NaN = NaN"
| "js_abs PosInf = PosInf"
| "js_abs NegInf = PosInf"

fun js_lt :: "jsnum \<Rightarrow> jsnum \<Rightarrow> bool" where
  "js_lt (Num a) (Num b) = (a < b)"
| "js_lt (Num a) PosInf = True"
| "js_lt NegInf (Num b) = True"
| "js_lt NegInf PosInf = True"
| "js_lt a b = False"

fun js_ge :: "jsnum \<Rightarrow> jsnum \<Rightarrow> bool" where
  "js_ge (Num a) (Num b) = (a \<ge> b)"
| "js_ge NaN b = False"
| "js_ge a NaN = False"
| "js_ge PosInf b = True"
| "js_ge a NegInf = True"
| "js_ge a b = False"

text \<open>\<open>xs[i]\<close> on an array: \<open>undefined\<close> past the end.\<close>

definition at_index :: "jsval list \<Rightarrow> nat \<Rightarrow> jsval" where
  "at_index xs i = (if i < length xs then xs ! i else JUndefined)"

section \<open>The canonical incident\<close>

text \<open>
  The object every adapter builds. \<open>ident\<close> is the field \<open>id\<close> and \<open>itype\<close> the field
  \<open>type\<close>, a string but for the one case told at \<open>mapped_type\<close>. \<open>time\<close> is \<open>Some ms\<close> for an ISO-8601 string denoting \<open>ms\<close> milliseconds
  since the epoch and \<open>None\<close> for \<open>null\<close> or \<open>undefined\<close>; a string that is no
  date is not modelled. The display fields
  \<open>url\<close> and \<open>description\<close> and the social extension attributes are read by no later
  stage and are left out.
\<close>

record incident =
  ident :: string
  itype :: string
  title :: string
  location :: string
  lat :: jsval
  lng :: jsval
  severity :: string
  magnitude :: "jsnum option"
  time :: "int option"
  source :: string

section \<open>Source 1: the seismic adapter\<close>

text \<open>
  One entry of \<open>data.features\<close>: \<open>f.id\<close>, \<open>f.properties.mag\<close> (\<open>None\<close> when it is
  \<open>null\<close>), \<open>f.properties.title\<close>, \<open>f.properties.place\<close>, \<open>f.properties.time\<close>
  and \<open>f.geometry.coordinates\<close> (longitude, latitude, depth).
\<close>

record usgs_feature =
  f_id :: string
  f_mag :: "jsnum option"
  f_title :: string
  f_place :: string
  f_time :: jsnum
  f_coordinates :: "jsval list"

text \<open>The \<open>if\<close> chain on \<open>mag\<close>; \<open>null >= 6.5\<close> compares 0.\<close>

definition usgs_severity :: "jsnum option \<Rightarrow> string" where
  "usgs_severity mag =
     (let m = (case mag of None \<Rightarrow> Num 0 | Some n \<Rightarrow> n) in
      if js_ge m (Num 6.5) then ''critical''
      else if js_ge m (Num 5.5) then ''high''
      else if js_ge m (Num 4.5) then ''moderate''
      else ''low'')"

text \<open>
  The decimal that \<open>x.toFixed(1)\<close> writes: the sign is set aside and the integer
  \<open>n\<close> with \<open>n / 10\<close> nearest to \<open>|x|\<close> is taken, the larger one on a tie.
  \<open>parseFloat\<close> reads it back as the nearest double; \<open>NaN\<close> and the infinities are
  written and read back as they are.
\<close>

definition toFixed1 :: "real \<Rightarrow> real" where
  "toFixed1 x =
     (if x < 0 then - (of_int \<lfloor>- x * 10 + 1 / 2\<rfloor> / 10)
      else of_int \<lfloor>x * 10 + 1 / 2\<rfloor> / 10)"

fun round_magnitude :: "jsnum \<Rightarrow> jsnum" where
  "round_magnitude (Num x) = round_double (toFixed1 x)"
| "round_magnitude NaN = NaN"
| "round_magnitude PosInf = PosInf"
| "round_magnitude NegInf = NegInf"

text \<open>
  \<open>new Date(t).toISOString()\<close> for a number \<open>t\<close>: the time value is \<open>t\<close> cut to an
  integer, and \<open>toISOString\<close> throws a \<open>RangeError\<close> on an invalid date.
\<close>

fun date_of_number :: "jsnum \<Rightarrow> js_error + int" where
  "date_of_number (Num t) =
     (if \<bar>t\<bar> \<le> 8640000000000000
      then Inr (if t < 0 then \<lceil>t\<rceil> else \<lfloor>t\<rfloor>) else Inl RangeError)"
| "date_of_number NaN = Inl RangeError"
| "date_of_number PosInf = Inl RangeError"
| "date_of_number NegInf = Inl RangeError"

text \<open>
  The callback of \<open>data.features.map\<close>. \<open>mag.toFixed\<close> throws on \<open>null\<close>, and so does
  \<open>coordinates[2].toFixed\<close> when the depth is not a number.
\<close>

definition usgs_incident :: "usgs_feature \<Rightarrow> js_error + incident" where
  "usgs_incident f =
     (case f_mag f of
        None \<Rightarrow> Inl TypeError
      | Some mag \<Rightarrow>
          (case date_of_number (f_time f) of
             Inl e \<Rightarrow> Inl e
           | Inr ms \<Rightarrow>
               (case at_index (f_coordinates f) 2 of
                  JNum depth \<Rightarrow>
                    Inr \<lparr>ident = ''usgs_'' @ f_id f,
                         itype = ''earthquake'',
                         title = f_title f,
                         location = f_place f,
                         lat = at_index (f_coordinates f) 1,
                         lng = at_index (f_coordinates f) 0,
                         severity = usgs_severity (f_mag f),
                         magnitude = Some (round_magnitude mag),
                         time = Some ms,
                         source = ''USGS Earthquake Hazards''\<rparr>
                | _ \<Rightarrow> Inl TypeError)))"

text \<open>\<open>Array.prototype.map\<close> with a callback that may throw.\<close>

fun map_throwing :: "('a \<Rightarrow> js_error + 'b) \<Rightarrow> 'a list \<Rightarrow> js_error + 'b list" where
  "map_throwing g [] = Inr []"
| "map_throwing g (x # xs) =
     (case g x of
        Inl e \<Rightarrow> Inl e
      | Inr y \<Rightarrow> (case map_throwing g xs of Inl e \<Rightarrow> Inl e | Inr ys \<Rightarrow> Inr (y # ys)))"

text \<open>
  \<open>fetchUSGS\<close>, given what \<open>axios.get\<close> settled to: an error, or \<open>data.features\<close>.
\<close>

definition fetchUSGS :: "js_error + usgs_feature list \<Rightarrow> incident list settled" where
  "fetchUSGS response =
     (case response of
        Inl e \<Rightarrow> Rejected e
      | Inr features \<Rightarrow>
          (case map_throwing usgs_incident features of
             Inl e \<Rightarrow> Rejected e
           | Inr mapped \<Rightarrow> Fulfilled (filter (\<lambda>i. truthy (lat i) \<and> truthy (lng i)) mapped)))"

section \<open>Source 2: the satellite-event adapter\<close>

text \<open>
  One entry of \<open>event.geometry\<close>: \<open>geo.type\<close>, \<open>geo.coordinates\<close> and \<open>geo.date\<close>
  (\<open>None\<close> when absent or empty). An event: \<open>event.id\<close>, \<open>event.title\<close>, the titles of
  \<open>event.categories\<close> and \<open>event.geometry\<close> (both empty when absent).
\<close>

record eonet_geometry =
  g_type :: string
  g_coordinates :: jsval
  g_date :: "int option"

record eonet_event =
  e_id :: string
  e_title :: string
  e_categories :: "string list"
  e_geometry :: "eonet_geometry list"

definition typeMap :: "(string \<times> string) list" where
  "typeMap =
     [(''Wildfires'', ''fire''), (''Floods'', ''flood''), (''Severe Storms'', ''storm''),
      (''Volcanoes'', ''volcano''), (''Tsunamis'', ''tsunami''), (''Earthquakes'', ''earthquake''),
      (''Drought'', ''other''), (''Sea and Lake Ice'', ''other''), (''Snow'', ''other''),
      (''Dust and Haze'', ''other''), (''Landslides'', ''other''), (''Manmade'', ''other'')]"

definition sevMap :: "(string \<times> string) list" where
  "sevMap =
     [(''fire'', ''high''), (''volcano'', ''high''), (''tsunami'', ''critical''),
      (''flood'', ''moderate''), (''storm'', ''high'')]"

text \<open>
  \<open>table[key] || fallback\<close> on the own properties of a table of non-empty strings.
\<close>

definition lookup_or :: "(string \<times> string) list \<Rightarrow> string \<Rightarrow> string \<Rightarrow> string" where
  "lookup_or table key fallback = (case map_of table key of None \<Rightarrow> fallback | Some v \<Rightarrow> v)"

text \<open>
  The properties every object literal inherits from \<open>Object.prototype\<close>. Read from a
  table under one of these keys, the value is a function (for \<open>__proto__\<close> an object):
  it is truthy, it is no string, and two reads under the same key give the same value.
  Where the model needs a string for it, \<open>inherited_value\<close> stands for it.
\<close>

definition inherited_keys :: "string list" where
  "inherited_keys =
     [''constructor'', ''toString'', ''toLocaleString'', ''valueOf'', ''hasOwnProperty'',
      ''isPrototypeOf'', ''propertyIsEnumerable'', ''__proto__'', ''__defineGetter__'',
      ''__defineSetter__'', ''__lookupGetter__'', ''__lookupSetter__'']"

definition inherited_value :: "string \<Rightarrow> string" where
  "inherited_value key = ''[inherited '' @ key @ '']''"

text \<open>\<open>typeMap[category] || 'other'\<close>.\<close>

definition mapped_type :: "string \<Rightarrow> string" where
  "mapped_type category =
     (if category \<in> set inherited_keys then inherited_value category
      else lookup_or typeMap category ''other'')"

text \<open>\<open>event.categories?.[0]?.title || 'Unknown'\<close>.\<close>

definition event_category :: "eonet_event \<Rightarrow> string" where
  "event_category event =
     (case e_categories event of
        [] \<Rightarrow> ''Unknown''
      | t # ts \<Rightarrow> if t = [] then ''Unknown'' else t)"

text \<open>\<open>event.geometry?.[event.geometry.length - 1]\<close>.\<close>

definition last_geometry :: "eonet_event \<Rightarrow> eonet_geometry option" where
  "last_geometry event =
     (if e_geometry event = [] then None else Some (last (e_geometry event)))"

text \<open>\<open>v[0]\<close>: a \<open>TypeError\<close> on \<open>undefined\<close> and \<open>null\<close>, \<open>undefined\<close> on a primitive.\<close>

fun index0 :: "jsval \<Rightarrow> js_error + jsval" where
  "index0 JUndefined = Inl TypeError"
| "index0 JNull = Inl TypeError"
| "index0 (JArr xs) = Inr (at_index xs 0)"
| "index0 v = Inr JUndefined"

text \<open>\<open>[lng, lat] = v\<close>: only an array is iterable here.\<close>

fun destructure_pair :: "jsval \<Rightarrow> js_error + jsval \<times> jsval" where
  "destructure_pair (JArr xs) = Inr (at_index xs 0, at_index xs 1)"
| "destructure_pair v = Inl TypeError"

text \<open>
  The branch on \<open>geo.type\<close>: the pair \<open>(lng, lat)\<close>, \<open>None\<close> for \<open>continue\<close>, or the
  error thrown.
\<close>

definition geometry_position :: "eonet_geometry \<Rightarrow> js_error + (jsval \<times> jsval) option" where
  "geometry_position geo =
     (if g_type geo = ''Point'' then
        (case destructure_pair (g_coordinates geo) of Inl e \<Rightarrow> Inl e | Inr p \<Rightarrow> Inr (Some p))
      else if g_type geo = ''Polygon'' then
        (case index0 (g_coordinates geo) of
           Inl e \<Rightarrow> Inl e
         | Inr ring \<Rightarrow>
             (case index0 ring of
                Inl e \<Rightarrow> Inl e
              | Inr vertex \<Rightarrow>
                  (case destructure_pair vertex of Inl e \<Rightarrow> Inl e | Inr p \<Rightarrow> Inr (Some p))))
      else Inr None)"

text \<open>
  The body of the loop over \<open>data.events\<close>: the incident pushed, \<open>None\<close> for
  \<open>continue\<close>, or the error thrown. \<open>now\<close> is the clock read by \<open>new Date()\<close>.
  The severity is read from \<open>sevMap\<close> under the type, which is never one of the
  inherited keys.
\<close>

definition nasa_event :: "int \<Rightarrow> eonet_event \<Rightarrow> js_error + incident option" where
  "nasa_event now event =
     (let category = event_category event;
          disasterType = mapped_type category
      in case last_geometry event of
           None \<Rightarrow> Inr None
         | Some geo \<Rightarrow>
             if \<not> truthy (g_coordinates geo) then Inr None
             else
               (case geometry_position geo of
                  Inl e \<Rightarrow> Inl e
                | Inr None \<Rightarrow> Inr None
                | Inr (Some (lng_v, lat_v)) \<Rightarrow>
                    if isNaN lat_v \<or> isNaN lng_v then Inr None
                    else
                      Inr (Some \<lparr>ident = ''nasa_'' @ e_id event,
                                 itype = disasterType,
                                 title = e_title event,
                                 location = e_title event,
                                 lat = lat_v,
                                 lng = lng_v,
                                 severity = lookup_or sevMap disasterType ''moderate'',
                                 magnitude = None,
                                 time = Some (case g_date geo of None \<Rightarrow> now | Some d \<Rightarrow> d),
                                 source = ''NASA EONET''\<rparr>)))"

fun eonet_loop :: "int \<Rightarrow> eonet_event list \<Rightarrow> incident list \<Rightarrow> js_error + incident list" where
  "eonet_loop now [] results = Inr results"
| "eonet_loop now (event # events) results =
     (case nasa_event now event of
        Inl e \<Rightarrow> Inl e
      | Inr None \<Rightarrow> eonet_loop now events results
      | Inr (Some i) \<Rightarrow> eonet_loop now events (results @ [i]))"

text \<open>
  \<open>fetchNASAEONET\<close>, given what \<open>axios.get\<close> settled to: an error, or \<open>data.events\<close>.
\<close>

definition fetchNASAEONET :: "int \<Rightarrow> js_error + eonet_event list \<Rightarrow> incident list settled" where
  "fetchNASAEONET now response =
     (case response of
        Inl e \<Rightarrow> Rejected e
      | Inr events \<Rightarrow>
          (case eonet_loop now events [] of
             Inl e \<Rightarrow> Rejected e
           | Inr results \<Rightarrow> Fulfilled results))"

section \<open>Source 5: the social-text adapter\<close>

text \<open>\<open>process.env\<close>: a variable is a string, or \<open>None\<close> when it is not set.\<close>

record process_env =
  REDDIT_CLIENT_ID :: "string option"
  REDDIT_CLIENT_SECRET :: "string option"

text \<open>The module variables \<open>redditToken\<close> and \<open>redditTokenExpiry\<close>.\<close>

record token_state =
  redditToken :: "string option"
  redditTokenExpiry :: int

definition initial_token_state :: token_state where
  "initial_token_state = \<lparr>redditToken = None, redditTokenExpiry = 0\<rparr>"

text \<open>The body of the token response: \<open>data.access_token\<close> and \<open>data.expires_in\<close>.\<close>

record token_response =
  access_token :: string
  expires_in :: int

text \<open>One \<open>post.data\<close> of a listing.\<close>

record reddit_post =
  p_id :: string
  p_title :: string
  p_selftext :: string
  p_score :: int
  p_created_utc :: int

text \<open>
  What the adapter reads from outside in one run: the clock, what the token exchange
  settles to, what the listing request of each community settles to
  (\<open>data?.data?.children || []\<close>), and the successive values of \<open>Math.random()\<close>.
\<close>

record reddit_world =
  clock :: int
  token_exchange :: "js_error + token_response"
  listing :: "string \<Rightarrow> js_error + reddit_post list"
  random :: "nat \<Rightarrow> real"

definition DISASTER_KEYWORDS :: "(string \<times> string list) list" where
  "DISASTER_KEYWORDS =
     [(''earthquake'', [''earthquake'', ''quake'', ''seismic'', ''tremor'', ''aftershock'', ''magnitude'']),
      (''flood'', [''flood'', ''flooding'', ''submerged'', ''inundation'', ''flash flood'']),
      (''fire'', [''wildfire'', ''fire'', ''blaze'', ''inferno'', ''burning'', ''forest fire'', ''brushfire'']),
      (''storm'', [''hurricane'', ''typhoon'', ''cyclone'', ''tornado'', ''storm'', ''blizzard'']),
      (''volcano'', [''volcano'', ''eruption'', ''lava'', ''volcanic'']),
      (''tsunami'', [''tsunami'', ''tidal wave''])]"

definition LOCATION_HINTS :: "(string \<times> real \<times> real) list" where
  "LOCATION_HINTS =
     [(''turkey'', 39, 35), (''california'', 36.7, -119.4), (''japan'', 36.2, 138.2),
      (''india'', 20.6, 78.9), (''indonesia'', 0.8, 113.9), (''pakistan'', 30.4, 69.3),
      (''china'', 35.9, 104.2), (''nepal'', 28.4, 84.1), (''philippines'', 12.9, 121.8),
      (''australia'', -25.3, 133.8), (''brazil'', -14.2, -51.9), (''chile'', -35.7, -71.5),
      (''italy'', 41.9, 12.5), (''greece'', 39.1, 21.8), (''morocco'', 31.8, -7.1),
      (''haiti'', 18.9, -72.3), (''mexico'', 23.6, -102.5), (''iran'', 32.4, 53.7),
      (''afghanistan'', 33.9, 67.7), (''ukraine'', 48.4, 31.2), (''peru'', -9.2, -75.0),
      (''new zealand'', -40.9, 174.9), (''taiwan'', 23.7, 120.9), (''myanmar'', 21.9, 95.9),
      (''thailand'', 15.9, 100.9), (''bangladesh'', 23.7, 90.4),
      (''los angeles'', 34.1, -118.2), (''san francisco'', 37.8, -122.4),
      (''texas'', 31.0, -99.9), (''florida'', 27.7, -81.5), (''alaska'', 64.2, -153.4)]"

text \<open>\<open>!s\<close> on an environment variable or a string: unset and empty are falsy.\<close>

definition env_set :: "string option \<Rightarrow> bool" where
  "env_set v = (case v of None \<Rightarrow> False | Some s \<Rightarrow> s \<noteq> [])"

text \<open>\<open>toLowerCase\<close> and \<open>toUpperCase\<close> on the ASCII letters.\<close>

definition lower_char :: "char \<Rightarrow> char" where
  "lower_char c =
     (let n = (of_char c :: nat) in if 65 \<le> n \<and> n \<le> 90 then char_of (n + 32) else c)"

definition upper_char :: "char \<Rightarrow> char" where
  "upper_char c =
     (let n = (of_char c :: nat) in if 97 \<le> n \<and> n \<le> 122 then char_of (n - 32) else c)"

definition toLowerCase :: "string \<Rightarrow> string" where
  "toLowerCase s = map lower_char s"

text \<open>\<open>text.includes(kw)\<close>.\<close>

fun starts_with :: "string \<Rightarrow> string \<Rightarrow> bool" where
  "starts_with text [] = True"
| "starts_with [] (k # kw) = False"
| "starts_with (c # text) (k # kw) = (c = k \<and> starts_with text kw)"

fun str_includes :: "string \<Rightarrow> string \<Rightarrow> bool" where
  "str_includes [] kw = (kw = [])"
| "str_includes (c # text) kw = (starts_with (c # text) kw \<or> str_includes text kw)"

definition classifyDisasterType :: "string \<Rightarrow> string option" where
  "classifyDisasterType text =
     (let lower = toLowerCase text in
      map_option fst
        (find (\<lambda>(ty, keywords). list_ex (\<lambda>kw. str_includes lower kw) keywords) DISASTER_KEYWORDS))"

text \<open>
  \<open>extractLocation\<close>, where \<open>k\<close> counts the calls of \<open>Math.random()\<close> made so far: the
  latitude jitter is drawn first. The result is the name, \<open>lat\<close> and \<open>lng\<close>. The
  entries of \<open>LOCATION_HINTS\<close> are decimal literals.
\<close>

definition jitter :: "real \<Rightarrow> jsnum" where
  "jitter r = js_mul (js_sub (Num r) (Num 0.5)) (Num 2)"

definition capitalize :: "string \<Rightarrow> string" where
  "capitalize name = (case name of [] \<Rightarrow> [] | c # cs \<Rightarrow> upper_char c # cs)"

definition extractLocation :: "(nat \<Rightarrow> real) \<Rightarrow> nat \<Rightarrow> string \<Rightarrow> (string \<times> jsnum \<times> jsnum) option" where
  "extractLocation rnd k text =
     (let lower = toLowerCase text in
      case find (\<lambda>(name, coords). str_includes lower name) LOCATION_HINTS of
        None \<Rightarrow> None
      | Some (name, c0, c1) \<Rightarrow>
          Some (capitalize name,
                js_add (round_double c0) (jitter (rnd k)),
                js_add (round_double c1) (jitter (rnd (Suc k)))))"

definition scaryWords :: "string list" where
  "scaryWords =
     [''deadly'', ''deaths'', ''killed'', ''casualties'', ''devastating'', ''catastrophic'',
      ''emergency'', ''massive'']"

definition scoreSeverity :: "int \<Rightarrow> string \<Rightarrow> string" where
  "scoreSeverity upvotes ttl =
     (let scary = list_ex (\<lambda>w. str_includes (toLowerCase ttl) w) scaryWords in
      if upvotes > 5000 \<or> (upvotes > 2000 \<and> scary) then ''critical''
      else if upvotes > 1000 \<or> scary then ''high''
      else if upvotes > 200 then ''moderate''
      else ''low'')"

text \<open>
  \<open>getRedditToken\<close>: without both credentials it returns \<open>null\<close> and leaves the token
  alone; otherwise a failed exchange throws and a successful one stores the token.
\<close>

definition getRedditToken :: "process_env \<Rightarrow> reddit_world \<Rightarrow> token_state \<Rightarrow> js_error + token_state" where
  "getRedditToken env w st =
     (if \<not> env_set (REDDIT_CLIENT_ID env) \<or> \<not> env_set (REDDIT_CLIENT_SECRET env) then Inr st
      else
        (case token_exchange w of
           Inl e \<Rightarrow> Inl e
         | Inr data \<Rightarrow>
             Inr \<lparr>redditToken = Some (access_token data),
                  redditTokenExpiry = clock w + expires_in data * 1000\<rparr>))"

text \<open>
  The loop over the posts of one community, inside its \<open>try\<close>: \<open>allPosts\<close> and the
  count of random draws go in and come out. An invalid date throws into the \<open>catch\<close>
  of the community, which ends the loop and keeps what was pushed.
\<close>

fun posts_loop ::
  "(nat \<Rightarrow> real) \<Rightarrow> reddit_post list \<Rightarrow> incident list \<times> nat \<Rightarrow> incident list \<times> nat" where
  "posts_loop rnd [] (allPosts, k) = (allPosts, k)"
| "posts_loop rnd (p # posts) (allPosts, k) =
     (if p_title p = [] \<or> p_score p < 10 then posts_loop rnd posts (allPosts, k)
      else
        (case classifyDisasterType (p_title p @ '' '' @ p_selftext p) of
           None \<Rightarrow> posts_loop rnd posts (allPosts, k)
         | Some ty \<Rightarrow>
             (case extractLocation rnd k (p_title p @ '' '' @ p_selftext p) of
                None \<Rightarrow> posts_loop rnd posts (allPosts, k)
              | Some (name, lat_v, lng_v) \<Rightarrow>
                  (case date_of_number (Num (of_int (p_created_utc p * 1000))) of
                     Inl e \<Rightarrow> (allPosts, k + 2)
                   | Inr ms \<Rightarrow>
                       posts_loop rnd posts
                         (allPosts @
                          [\<lparr>ident = ''reddit_'' @ p_id p,
                            itype = ty,
                            title = take 120 (p_title p),
                            location = name,
                            lat = JNum lat_v,
                            lng = JNum lng_v,
                            severity = scoreSeverity (p_score p) (p_title p),
                            magnitude = None,
                            time = Some ms,
                            source = ''Reddit''\<rparr>],
                          k + 2)))))"

definition subreddits :: "string list" where
  "subreddits = [''worldnews'', ''news'', ''earthquake'', ''weather'']"

text \<open>The loop over the communities: a failed request is caught and skipped.\<close>

fun subreddits_loop ::
  "reddit_world \<Rightarrow> string list \<Rightarrow> incident list \<times> nat \<Rightarrow> incident list \<times> nat" where
  "subreddits_loop w [] acc = acc"
| "subreddits_loop w (sub # subs) acc =
     (case listing w sub of
        Inl e \<Rightarrow> subreddits_loop w subs acc
      | Inr posts \<Rightarrow> subreddits_loop w subs (posts_loop (random w) posts acc))"

text \<open>\<open>fetchRedditPosts\<close>: what the promise settles to, and the token state after.\<close>

definition fetchRedditPosts ::
  "process_env \<Rightarrow> reddit_world \<Rightarrow> token_state \<Rightarrow> incident list settled \<times> token_state" where
  "fetchRedditPosts env w st =
     (if \<not> env_set (REDDIT_CLIENT_ID env) then (Fulfilled [], st)
      else
        (case (if redditToken st = None \<or> redditToken st = Some [] \<or>
                  clock w > redditTokenExpiry st - 30000
               then getRedditToken env w st else Inr st) of
           Inl e \<Rightarrow> (Rejected e, st)
         | Inr st' \<Rightarrow> (Fulfilled (fst (subreddits_loop w subreddits ([], 0))), st')))"

section \<open>Deduplication by proximity\<close>

text \<open>The predicate given to \<open>seen.find\<close> in \<open>deduplicateIncidents\<close>.\<close>

definition clash :: "incident \<Rightarrow> incident \<Rightarrow> bool" where
  "clash s inc \<longleftrightarrow>
     itype s = itype inc \<and>
     js_lt (js_abs (js_sub (toNumber (lat s)) (toNumber (lat inc)))) (Num 0.5) \<and>
     js_lt (js_abs (js_sub (toNumber (lng s)) (toNumber (lng inc)))) (Num 0.5)"

text \<open>
  \<open>incidents.filter(inc => ...)\<close> with the array \<open>seen\<close> that the callback reads and
  extends: the first argument is \<open>seen\<close> before the callback runs on the next element.
\<close>

fun dedup_filter :: "incident list \<Rightarrow> incident list \<Rightarrow> incident list" where
  "dedup_filter seen [] = []"
| "dedup_filter seen (inc # rest) =
     (case find (\<lambda>s. clash s inc) seen of
        None \<Rightarrow> inc # dedup_filter (seen @ [inc]) rest
      | Some c \<Rightarrow> dedup_filter seen rest)"

definition deduplicateIncidents :: "incident list \<Rightarrow> incident list" where
  "deduplicateIncidents incidents = dedup_filter [] incidents"

section \<open>Ranking\<close>

text \<open>The table \<open>sevOrder\<close> and \<open>sevOrder[s] ?? 3\<close>.\<close>

definition sevOrder :: "(string \<times> int) list" where
  "sevOrder = [(''critical'', 0), (''high'', 1), (''moderate'', 2), (''low'', 3)]"

definition sevRank :: "string \<Rightarrow> int" where
  "sevRank s = (case map_of sevOrder s of None \<Rightarrow> 3 | Some n \<Rightarrow> n)"

text \<open>The time value of \<open>new Date(t || 0)\<close>.\<close>

definition dateMs :: "int option \<Rightarrow> int" where
  "dateMs t = (case t of None \<Rightarrow> 0 | Some ms \<Rightarrow> ms)"

text \<open>
  The comparator given to \<open>deduped.sort\<close>. The sort reads only the sign of what it
  returns, and rounding a difference of time values to a double keeps its sign.
\<close>

definition compareIncidents :: "incident \<Rightarrow> incident \<Rightarrow> int" where
  "compareIncidents a b =
     (let sd = sevRank (severity a) - sevRank (severity b) in
      if sd \<noteq> 0 then sd else dateMs (time b) - dateMs (time a))"

text \<open>
  \<open>Array.prototype.sort\<close> with a comparator is stable; it is modelled as the stable
  insertion sort, which puts an element before the first later one it does not exceed.
\<close>

fun insert_by :: "('a \<Rightarrow> 'a \<Rightarrow> int) \<Rightarrow> 'a \<Rightarrow> 'a list \<Rightarrow> 'a list" where
  "insert_by cmp x [] = [x]"
| "insert_by cmp x (y # ys) = (if cmp x y \<le> 0 then x # y # ys else y # insert_by cmp x ys)"

definition js_sort :: "('a \<Rightarrow> 'a \<Rightarrow> int) \<Rightarrow> 'a list \<Rightarrow> 'a list" where
  "js_sort cmp xs = foldr (insert_by cmp) xs []"

definition rankIncidents :: "incident list \<Rightarrow> incident list" where
  "rankIncidents deduped = js_sort compareIncidents deduped"

section \<open>Aggregation\<close>

text \<open>
  What the five promises given to \<open>Promise.allSettled\<close> settled to. The adapters of
  sources 3 and 4 are not modelled: their outcomes are taken as they come.
\<close>

record adapter_results =
  usgs_result :: "incident list settled"
  nasa_result :: "incident list settled"
  gdacs_result :: "incident list settled"
  reliefweb_result :: "incident list settled"
  reddit_result :: "incident list settled"

text \<open>
  An entry of \<open>sourceStatus\<close>: \<open>{ok: true, count}\<close> or \<open>{ok: false, error}\<close>, where the
  error stands for the message of the reason of the rejection.
\<close>

datatype source_status = StatusOk nat | StatusFailed js_error

record aggregation_result =
  incidents :: "incident list"
  sourceStatus :: "string \<rightharpoonup> source_status"
  fetchedAt :: int

definition sourceNames :: "string list" where
  "sourceNames = [''USGS'', ''NASA EONET'', ''GDACS'', ''ReliefWeb'', ''Reddit'']"

text \<open>
  \<open>results.forEach((result, i) => ...)\<close> from index \<open>i\<close> on, with \<open>combined\<close> and
  \<open>sourceStatus\<close> as they stand.
\<close>

fun collect ::
  "nat \<Rightarrow> incident list settled list \<Rightarrow> incident list \<times> (string \<rightharpoonup> source_status) \<Rightarrow>
   incident list \<times> (string \<rightharpoonup> source_status)" where
  "collect i [] acc = acc"
| "collect i (result # rest) (combined, status) =
     (case result of
        Fulfilled v \<Rightarrow>
          collect (Suc i) rest (combined @ v, status(sourceNames ! i \<mapsto> StatusOk (length v)))
      | Rejected reason \<Rightarrow>
          collect (Suc i) rest (combined, status(sourceNames ! i \<mapsto> StatusFailed reason)))"

definition settled_results :: "adapter_results \<Rightarrow> incident list settled list" where
  "settled_results r =
     [usgs_result r, nasa_result r, gdacs_result r, reliefweb_result r, reddit_result r]"

text \<open>
  \<open>aggregateAllSources\<close> from the point where all five promises have settled; \<open>now\<close> is
  the clock read for \<open>fetchedAt\<close>.
\<close>

definition aggregateAllSources :: "adapter_results \<Rightarrow> int \<Rightarrow> aggregation_result" where
  "aggregateAllSources r now =
     (let (combined, status) = collect 0 (settled_results r) ([], Map.empty);
          deduped = deduplicateIncidents combined
      in \<lparr>incidents = rankIncidents deduped, sourceStatus = status, fetchedAt = now\<rparr>)"

section \<open>The routes and the cache\<close>

text \<open>The module variable \<open>cache\<close>, initially \<open>{data: null, timestamp: null}\<close>.\<close>

record cache =
  data :: "aggregation_result option"
  timestamp :: "int option"

definition initial_cache :: cache where
  "initial_cache = \<lparr>data = None, timestamp = None\<rparr>"

definition CACHE_TTL_MS :: int where
  "CACHE_TTL_MS = 3 * 60 * 1000"

text \<open>The body sent by \<open>/api/incidents\<close>: the result spread, and \<open>fromCache\<close>.\<close>

record incidents_response =
  body :: aggregation_result
  fromCache :: bool

text \<open>
  The test \<open>cache.data && cache.timestamp && (Date.now() - cache.timestamp < CACHE_TTL_MS)\<close>,
  where \<open>now\<close> is the clock read by \<open>Date.now()\<close>. A timestamp of 0 is falsy.
\<close>

definition cache_fresh :: "int \<Rightarrow> cache \<Rightarrow> bool" where
  "cache_fresh now c =
     (data c \<noteq> None \<and>
      (case timestamp c of None \<Rightarrow> False | Some t \<Rightarrow> t \<noteq> 0 \<and> now - t < CACHE_TTL_MS))"

text \<open>
  The handler of \<open>GET /api/incidents\<close>, run without interleaving. \<open>now\<close> is the clock at
  the freshness test, \<open>r\<close> what the adapters settle to if they are started,
  \<open>fetched\<close> the clock when the aggregation ends and \<open>stored\<close> the clock when the
  cache is written.
\<close>

definition getAllIncidents ::
  "int \<Rightarrow> adapter_results \<Rightarrow> int \<Rightarrow> int \<Rightarrow> cache \<Rightarrow> cache \<times> incidents_response" where
  "getAllIncidents now r fetched stored c =
     (case (if cache_fresh now c then data c else None) of
        Some d \<Rightarrow> (c, \<lparr>body = d, fromCache = True\<rparr>)
      | None \<Rightarrow>
          (let result = aggregateAllSources r fetched
           in (\<lparr>data = Some result, timestamp = Some stored\<rparr>,
               \<lparr>body = result, fromCache = False\<rparr>)))"

text \<open>The body sent by \<open>/api/incidents/:type\<close>.\<close>

record type_response =
  filtered :: "incident list"
  count :: nat

text \<open>
  The handler of \<open>GET /api/incidents/:type\<close>:
  \<open>cache.data?.incidents || (await aggregateAllSources()).incidents\<close>, where an array is
  always truthy. The cache is returned as the handler leaves it.
\<close>

definition getIncidentsByType ::
  "string \<Rightarrow> adapter_results \<Rightarrow> int \<Rightarrow> cache \<Rightarrow> cache \<times> type_response" where
  "getIncidentsByType ty r fetched c =
     (let all = (case data c of
                   Some d \<Rightarrow> incidents d
                 | None \<Rightarrow> incidents (aggregateAllSources r fetched));
          flt = filter (\<lambda>i. itype i = ty) all
      in (c, \<lparr>filtered = flt, count = length flt\<rparr>))"

section \<open>The deduplication as the specification words it\<close>

text \<open>
  Two incidents are near in the words of the specification: equal type, and the latitude
  difference and the longitude difference, as differences of the numbers themselves,
  both strictly below 0.5.
\<close>

definition spec_near :: "incident \<Rightarrow> incident \<Rightarrow> bool" where
  "spec_near s inc \<longleftrightarrow>
     itype s = itype inc \<and>
     (case (toNumber (lat s), toNumber (lat inc), toNumber (lng s), toNumber (lng inc)) of
        (Num a, Num c, Num b, Num d) \<Rightarrow> \<bar>a - c\<bar> < 0.5 \<and> \<bar>b - d\<bar> < 0.5
      | _ \<Rightarrow> False)"

text \<open>A list with no two incidents near each other.\<close>

definition spec_deduplicated :: "incident list \<Rightarrow> bool" where
  "spec_deduplicated xs = sorted_wrt (\<lambda>s inc. \<not> spec_near s inc) xs"

section \<open>The ranking as the specification words it\<close>

text \<open>
  The order on times in the words of the specification: a missing time is older than
  every time, and two times compare as instants.
\<close>

fun spec_older_eq :: "int option \<Rightarrow> int option \<Rightarrow> bool" where
  "spec_older_eq None t = True"
| "spec_older_eq (Some a) None = False"
| "spec_older_eq (Some a) (Some b) = (a \<le> b)"

text \<open>
  A list ranked as the specification words it: severity tier ascending, and within a
  tier the time descending under \<open>spec_older_eq\<close>.
\<close>

definition spec_ranked :: "incident list \<Rightarrow> bool" where
  "spec_ranked xs =
     sorted_wrt
       (\<lambda>a b. sevRank (severity a) < sevRank (severity b) \<or>
              (sevRank (severity a) = sevRank (severity b) \<and> spec_older_eq (time b) (time a)))
       xs"

section \<open>What a settled adapter contributes\<close>

definition contribution :: "incident list settled \<Rightarrow> incident list" where
  "contribution result = (case result of Fulfilled v \<Rightarrow> v | Rejected e \<Rightarrow> [])"

definition status_entry :: "incident list settled \<Rightarrow> source_status" where
  "status_entry result =
     (case result of Fulfilled v \<Rightarrow> StatusOk (length v) | Rejected e \<Rightarrow> StatusFailed e)"

section \<open>Sample data\<close>

definition report :: "string \<Rightarrow> string \<Rightarrow> real \<Rightarrow> real \<Rightarrow> string \<Rightarrow> int option \<Rightarrow> incident" where
  "report i ty la lo sev t =
     \<lparr>ident = i, itype = ty, title = i, location = i, lat = JNum (Num la), lng = JNum (Num lo),
      severity = sev, magnitude = None, time = t, source = ''sample''\<rparr>"

definition quake_a :: incident where
  "quake_a = report ''a'' ''earthquake'' 10 20 ''low'' (Some 1000)"

definition quake_b :: incident where
  "quake_b = report ''b'' ''earthquake'' 10.25 20.25 ''critical'' (Some 2000)"

definition flood_c :: incident where
  "flood_c = report ''c'' ''flood'' 10 20 ''high'' (Some 3000)"

definition storm_d :: incident where
  "storm_d = report ''d'' ''storm'' 50 60 ''high'' (Some 3000)"

text \<open>
  Two reports whose latitudes are the doubles nearest to 0.35 and to -0.15: they differ
  by \<open>1 / 2 - 1 / 2 ^ 55\<close>.
\<close>

definition near_a :: incident where
  "near_a = report ''p'' ''flood'' (6305039478318694 / 2 ^ 54) 8 ''high'' (Some 1000)"

definition near_b :: incident where
  "near_b = report ''q'' ''flood'' (- 5404319552844595 / 2 ^ 55) 8 ''high'' (Some 2000)"

definition undated_report :: incident where
  "undated_report = report ''u'' ''flood'' 1 1 ''high'' None"

definition old_report :: incident where
  "old_report = report ''o'' ''storm'' 5 5 ''high'' (Some (- 1))"

definition sample_results :: adapter_results where
  "sample_results =
     \<lparr>usgs_result = Fulfilled [quake_a, quake_b],
      nasa_result = Rejected (NetworkError ''timeout of 10000ms exceeded''),
      gdacs_result = Fulfilled [flood_c],
      reliefweb_result = Rejected TypeError,
      reddit_result = Fulfilled [storm_d]\<rparr>"

definition other_results :: adapter_results where
  "other_results =
     \<lparr>usgs_result = Fulfilled [],
      nasa_result = Fulfilled [flood_c],
      gdacs_result = Fulfilled [],
      reliefweb_result = Fulfilled [],
      reddit_result = Fulfilled []\<rparr>"

definition strong_quake :: usgs_feature where
  "strong_quake =
     \<lparr>f_id = ''us7000'', f_mag = Some (Num 6.625), f_title = ''M 6.6 - Off the coast'',
      f_place = ''Off the coast'', f_time = Num 1700000000000,
      f_coordinates = [JNum (Num 142.5), JNum (Num 38.25), JNum (Num 10)]\<rparr>"

definition equator_quake :: usgs_feature where
  "equator_quake =
     \<lparr>f_id = ''us7001'', f_mag = Some (Num 5.625), f_title = ''M 5.6 - Equator'',
      f_place = ''Equator'', f_time = Num 1700000000000,
      f_coordinates = [JNum (Num 100.5), JNum (Num 0), JNum (Num 33)]\<rparr>"

definition weak_quake :: usgs_feature where
  "weak_quake =
     \<lparr>f_id = ''us7003'', f_mag = Some (Num 3), f_title = ''M 3.0 - Inland'',
      f_place = ''Inland'', f_time = Num 1700000000500,
      f_coordinates = [JNum (Num (- 70.5)), JNum (Num (- 33.25)), JNum (Num 12)]\<rparr>"

definition unlocated_quake :: usgs_feature where
  "unlocated_quake =
     \<lparr>f_id = ''us7002'', f_mag = Some (Num 3), f_title = ''M 3.0'',
      f_place = ''Unknown'', f_time = Num 1700000000000,
      f_coordinates = [JNull, JNull, JNum (Num 5)]\<rparr>"

definition tracked_storm :: eonet_event where
  "tracked_storm =
     \<lparr>e_id = ''EONET_1'', e_title = ''Tropical Storm'', e_categories = [''Severe Storms''],
      e_geometry =
        [\<lparr>g_type = ''Point'', g_coordinates = JArr [JNum (Num 1), JNum (Num 2)], g_date = Some 100\<rparr>,
         \<lparr>g_type = ''Point'', g_coordinates = JArr [JNum (Num 3), JNum (Num 4)], g_date = Some 150\<rparr>,
         \<lparr>g_type = ''Point'', g_coordinates = JArr [JNum (Num (- 60.5)), JNum (Num 25)], g_date = Some 200\<rparr>]\<rparr>"

definition burning_area :: eonet_event where
  "burning_area =
     \<lparr>e_id = ''EONET_2'', e_title = ''Wildfire'', e_categories = [''Wildfires''],
      e_geometry =
        [\<lparr>g_type = ''Polygon'',
          g_coordinates =
            JArr [JArr [JArr [JNum (Num 30), JNum (Num 40)], JArr [JNum (Num 31), JNum (Num 41)],
                        JArr [JNum (Num 30), JNum (Num 40)]]],
          g_date = None\<rparr>]\<rparr>"

definition untracked_event :: eonet_event where
  "untracked_event =
     \<lparr>e_id = ''EONET_4'', e_title = ''Dust'', e_categories = [''Dust and Haze''], e_geometry = []\<rparr>"

definition unlocated_event :: eonet_event where
  "unlocated_event =
     \<lparr>e_id = ''EONET_3'', e_title = ''Flood'', e_categories = [''Floods''],
      e_geometry = [\<lparr>g_type = ''Point'', g_coordinates = JArr [JNull, JNull], g_date = Some 300\<rparr>]\<rparr>"

definition no_credentials :: process_env where
  "no_credentials = \<lparr>REDDIT_CLIENT_ID = None, REDDIT_CLIENT_SECRET = None\<rparr>"

definition failing_world :: reddit_world where
  "failing_world =
     \<lparr>clock = 1700000000000, token_exchange = Inl (NetworkError ''401''),
      listing = (\<lambda>sub. Inl (NetworkError ''403'')), random = (\<lambda>k. 0)\<rparr>"

section \<open>Proofs: rounding\<close>

lemma binade_bounds: "0 < x \<Longrightarrow> 2 powi binade x \<le> x \<and> x < 2 powi (binade x + 1)"
proof (induction x rule: binade.induct)
  case (1 x)
  show ?case
  proof (cases "2 \<le> x")
    case True
    with 1 have ih: "2 powi binade (x / 2) \<le> x / 2 \<and> x / 2 < 2 powi (binade (x / 2) + 1)"
      by simp
    have b: "binade x = binade (x / 2) + 1"
      using True "1.prems" by (subst binade.simps) simp
    have "(2::real) powi (binade (x / 2) + 1) = 2 powi binade (x / 2) * 2"
      "(2::real) powi (binade (x / 2) + 1 + 1) = 2 powi (binade (x / 2) + 1) * 2"
      by (simp_all add: power_int_add)
    with ih show ?thesis
      unfolding b by linarith
  next
    case False
    show ?thesis
    proof (cases "x < 1")
      case True
      with 1 False have ih: "2 powi binade (x * 2) \<le> x * 2 \<and> x * 2 < 2 powi (binade (x * 2) + 1)"
        by simp
      have b: "binade x = binade (x * 2) - 1"
        using True False "1.prems" by (subst binade.simps) simp
      have "(2::real) powi binade (x * 2) = 2 powi (binade (x * 2) - 1) * 2"
        "(2::real) powi (binade (x * 2) + 1) = 2 powi (binade (x * 2) - 1 + 1) * 2"
        by (simp_all add: power_int_add power_int_diff)
      with ih show ?thesis
        unfolding b by linarith
    next
      case no: False
      have "binade x = 0"
        using no False "1.prems" by (subst binade.simps) simp
      with no False show ?thesis
        by simp
    qed
  qed
qed

lemma round_half_even_floor: "\<lfloor>y\<rfloor> \<le> round_half_even y"
  by (simp add: round_half_even_def Let_def)

lemma round_half_even_near: "of_int (round_half_even y) \<le> y + 1 / 2"
  unfolding round_half_even_def Let_def by (auto; linarith)

lemma round_half_even_less_even:
  "even N \<Longrightarrow> (round_half_even y < N) = (y < of_int N - 1 / 2)"
  unfolding round_half_even_def Let_def
  by (cases "\<lfloor>y\<rfloor> = N - 1") (auto; linarith)+

text \<open>
  A non-negative real rounds to a double below one half exactly when it lies below the
  midpoint of one half and the double before it.
\<close>

lemma round_pos_lt_half:
  assumes "0 \<le> x"
  shows "js_lt (round_pos x) (Num (1 / 2)) = (x < 1 / 2 - 1 / 2 ^ 55)"
proof (cases "x = 0")
  case True
  then show ?thesis
    by (simp add: round_pos_def)
next
  case False
  with assms have pos: "0 < x"
    by simp
  define e where "e = max (binade x) (- 1022)"
  define q :: real where "q = 2 powi (e - 52)"
  define m where "m = round_half_even (x / q)"
  have qpos: "0 < q"
    by (simp add: q_def)
  have rp: "round_pos x = (if 2 ^ 1024 \<le> of_int m * q then PosInf else Num (of_int m * q))"
    using False by (simp add: round_pos_def Let_def e_def q_def m_def)
  from binade_bounds [OF pos]
  have lo: "2 powi binade x \<le> x" and hi: "x < 2 powi (binade x + 1)"
    by simp_all
  consider "x < 1 / 4" | "1 / 4 \<le> x" "x < 1 / 2" | "1 / 2 \<le> x"
    by linarith
  then show ?thesis
  proof cases
    case 1
    have "binade x < - 2"
    proof (rule ccontr)
      assume "\<not> binade x < - 2"
      then have "(2::real) powi (- 2) \<le> 2 powi binade x"
        by (intro power_int_increasing) simp_all
      with lo 1 show False
        by simp
    qed
    then have "e - 52 \<le> - 55"
      by (simp add: e_def)
    then have "q \<le> 2 powi (- 55)"
      unfolding q_def by (intro power_int_increasing) simp_all
    then have qle: "q \<le> 1 / 2 ^ 55"
      by (simp add: power_int_minus_divide)
    have "of_int m \<le> x / q + 1 / 2"
      unfolding m_def by (rule round_half_even_near)
    then have "of_int m * q \<le> (x / q + 1 / 2) * q"
      using qpos by (intro mult_right_mono) simp_all
    also have "\<dots> = x + q / 2"
      using qpos by (simp add: field_simps)
    finally have "of_int m * q \<le> x + q / 2" .
    with qle 1 have small: "of_int m * q < 1 / 2"
      by simp
    then have "\<not> 2 ^ 1024 \<le> of_int m * q"
      by simp
    with small rp 1 show ?thesis
      by simp
  next
    case 2
    have "binade x = - 2"
    proof -
      have "binade x < - 1"
      proof (rule ccontr)
        assume "\<not> binade x < - 1"
        then have "(2::real) powi (- 1) \<le> 2 powi binade x"
          by (intro power_int_increasing) simp_all
        with lo 2 show False
          by simp
      qed
      moreover have "- 3 < binade x"
      proof (rule ccontr)
        assume "\<not> - 3 < binade x"
        then have "(2::real) powi (binade x + 1) \<le> 2 powi (- 2)"
          by (intro power_int_increasing) simp_all
        with hi 2 show False
          by simp
      qed
      ultimately show ?thesis
        by simp
    qed
    then have q: "q = 1 / 2 ^ 54"
      by (simp add: q_def e_def power_int_minus_divide)
    have m: "m = round_half_even (x * 2 ^ 54)"
      by (simp add: m_def q)
    have "(of_int m * q < 1 / 2) = (m < 2 ^ 53)"
    proof -
      have "(of_int m * q < 1 / 2) = (real_of_int m < 2 ^ 53)"
        by (simp add: q field_simps)
      also have "\<dots> = (m < 2 ^ 53)"
        by (metis of_int_less_iff of_int_numeral of_int_power)
      finally show ?thesis .
    qed
    also have "\<dots> = (x * 2 ^ 54 < of_int (2 ^ 53) - 1 / 2)"
      unfolding m by (rule round_half_even_less_even) simp
    also have "\<dots> = (x < 1 / 2 - 1 / 2 ^ 55)"
      by (simp add: field_simps)
    finally have eq: "(of_int m * q < 1 / 2) = (x < 1 / 2 - 1 / 2 ^ 55)" .
    show ?thesis
    proof (cases "2 ^ 1024 \<le> of_int m * q")
      case True
      then have "\<not> of_int m * q < 1 / 2"
        by simp
      with eq True rp show ?thesis
        by simp
    next
      case False
      with eq rp show ?thesis
        by simp
    qed
  next
    case 3
    have ge: "- 1 \<le> binade x"
    proof (rule ccontr)
      assume "\<not> - 1 \<le> binade x"
      then have "(2::real) powi (binade x + 1) \<le> 2 powi (- 1)"
        by (intro power_int_increasing) simp_all
      with hi 3 show False
        by simp
    qed
    then have e: "e = binade x"
      by (simp add: e_def)
    have split: "(2::real) powi binade x = 2 ^ 52 * q"
    proof -
      have "(2::real) powi binade x = 2 powi (52 + (e - 52))"
        by (simp add: e)
      also have "\<dots> = 2 powi 52 * 2 powi (e - 52)"
        by (rule power_int_add) simp
      finally show ?thesis
        by (simp add: q_def)
    qed
    with lo qpos have "2 ^ 52 \<le> x / q"
      by (simp add: field_simps)
    then have "2 ^ 52 \<le> \<lfloor>x / q\<rfloor>"
      by (simp add: le_floor_iff)
    with round_half_even_floor [of "x / q"] have "2 ^ 52 \<le> m"
      unfolding m_def by linarith
    then have "(2::real) ^ 52 \<le> of_int m"
      by (metis of_int_le_iff of_int_numeral of_int_power)
    then have "2 ^ 52 * q \<le> of_int m * q"
      using qpos by (intro mult_right_mono) simp_all
    with split have "2 powi binade x \<le> of_int m * q"
      by simp
    moreover have "(2::real) powi (- 1) \<le> 2 powi binade x"
      using ge by (intro power_int_increasing) simp_all
    ultimately have "1 / 2 \<le> of_int m * q"
      by simp
    with rp 3 show ?thesis
      by (auto simp: not_less)
  qed
qed

lemma round_pos_nonneg: "0 \<le> x \<Longrightarrow> js_abs (round_pos x) = round_pos x"
proof -
  assume "0 \<le> x"
  then have "0 \<le> of_int (round_half_even (x / q)) * q" if "0 < q" for q :: real
  proof -
    have "0 \<le> x / q"
      using that \<open>0 \<le> x\<close> by simp
    then have "0 \<le> \<lfloor>x / q\<rfloor>"
      by simp
    with round_half_even_floor [of "x / q"] have "0 \<le> round_half_even (x / q)"
      by linarith
    with that show ?thesis
      by simp
  qed
  then show ?thesis
    by (simp add: round_pos_def Let_def)
qed

lemma js_abs_round_double: "js_abs (round_double x) = round_pos \<bar>x\<bar>"
proof (cases "x < 0")
  case True
  have "js_abs (js_neg v) = js_abs v" for v
    by (cases v) simp_all
  with True show ?thesis
    by (simp add: round_double_def round_pos_nonneg)
next
  case False
  then show ?thesis
    by (simp add: round_double_def round_pos_nonneg)
qed

lemma round_double_lt_half:
  "js_lt (js_abs (round_double x)) (Num (1 / 2)) = (\<bar>x\<bar> < 1 / 2 - 1 / 2 ^ 55)"
  by (simp add: js_abs_round_double round_pos_lt_half)

lemmas round_eval =
  round_double_def round_pos_def binade.simps round_half_even_def Let_def power_int_minus_divide

section \<open>Proofs: deduplication\<close>

lemmas sample_defs =
  report_def quake_a_def quake_b_def flood_c_def storm_d_def undated_report_def old_report_def

lemma clash_sym: "clash s inc = clash inc s"
proof -
  have "js_abs (js_sub a b) = js_abs (js_sub b a)" for a b
    by (cases a; cases b) (simp_all add: js_abs_round_double abs_minus_commute)
  then show ?thesis
    unfolding clash_def by metis
qed

lemma clash_numeric:
  assumes "lat s = JNum (Num a)" and "lng s = JNum (Num b)"
    and "lat inc = JNum (Num c)" and "lng inc = JNum (Num d)"
  shows "clash s inc =
    (itype s = itype inc \<and> \<bar>a - c\<bar> < 1 / 2 - 1 / 2 ^ 55 \<and> \<bar>b - d\<bar> < 1 / 2 - 1 / 2 ^ 55)"
  using assms by (simp add: clash_def round_double_lt_half)

lemma case_find:
  "(case find P xs of None \<Rightarrow> a | Some c \<Rightarrow> b) = (if \<exists>x\<in>set xs. P x then b else a)"
  by (induction xs) auto

lemma dedup_filter_no_clash:
  "sorted_wrt (\<lambda>s inc. \<not> clash s inc) seen \<Longrightarrow>
   sorted_wrt (\<lambda>s inc. \<not> clash s inc) (seen @ dedup_filter seen xs)"
proof (induction xs arbitrary: seen)
  case Nil
  then show ?case by simp
next
  case (Cons inc rest)
  show ?case
  proof (cases "\<exists>s\<in>set seen. clash s inc")
    case False
    with Cons.prems have "sorted_wrt (\<lambda>s inc. \<not> clash s inc) (seen @ [inc])"
      by (simp add: sorted_wrt_append)
    from Cons.IH [OF this] False show ?thesis
      by (simp add: case_find)
  next
    case True
    with Cons show ?thesis
      by (simp add: case_find)
  qed
qed

lemma dedup_filter_snoc:
  "dedup_filter seen (xs @ [x]) =
     (if \<exists>s\<in>set (seen @ dedup_filter seen xs). clash s x
      then dedup_filter seen xs else dedup_filter seen xs @ [x])"
  by (induction xs arbitrary: seen) (auto simp: case_find)

lemma dedup_filter_subseq: "subseq (dedup_filter seen xs) xs"
  by (induction xs arbitrary: seen) (auto simp: case_find)

lemma dedup_sample:
  "deduplicateIncidents [quake_a, quake_b, flood_c] = [quake_a, flood_c]"
  by (simp add: deduplicateIncidents_def clash_def round_double_lt_half sample_defs)

lemma dedup_near:
  "deduplicateIncidents [near_a, near_b] = [near_a, near_b]"
  by (simp add: deduplicateIncidents_def clash_def round_double_lt_half near_a_def near_b_def
      report_def)

text \<open>
  Claim C1, as the code has it. For every list of incidents, no two entries of the output
  of \<open>deduplicateIncidents\<close> clash, where two incidents clash when they have equal type
  and the latitude difference and the longitude difference, each rounded to a double as
  \<open>s.lat - inc.lat\<close> is, are both below 0.5; for numeric coordinates this is to say that
  the differences of the numbers themselves are both below \<open>1 / 2 - 1 / 2 ^ 55\<close>. The
  output is a subsequence of the input made of the very same records, and an incident is
  kept exactly when it clashes with none of the incidents kept before it.
\<close>

theorem deduplicateIncidents_first_seen_wins:
  "(\<forall>i j. i < length (deduplicateIncidents xs) \<and> j < length (deduplicateIncidents xs) \<and> i \<noteq> j \<longrightarrow>
      \<not> clash (deduplicateIncidents xs ! i) (deduplicateIncidents xs ! j))
   \<and> subseq (deduplicateIncidents xs) xs
   \<and> deduplicateIncidents [] = []
   \<and> deduplicateIncidents (xs @ [x]) =
       (if \<exists>s\<in>set (deduplicateIncidents xs). clash s x
        then deduplicateIncidents xs else deduplicateIncidents xs @ [x])
   \<and> (\<forall>s inc a b c d.
        lat s = JNum (Num a) \<and> lng s = JNum (Num b) \<and>
        lat inc = JNum (Num c) \<and> lng inc = JNum (Num d) \<longrightarrow>
        clash s inc =
          (itype s = itype inc \<and> js_lt (js_abs (round_double (a - c))) (Num 0.5) \<and>
           js_lt (js_abs (round_double (b - d))) (Num 0.5))
        \<and> clash s inc =
          (itype s = itype inc \<and> \<bar>a - c\<bar> < 1 / 2 - 1 / 2 ^ 55 \<and> \<bar>b - d\<bar> < 1 / 2 - 1 / 2 ^ 55))"
proof -
  let ?out = "deduplicateIncidents xs"
  have sw: "sorted_wrt (\<lambda>s inc. \<not> clash s inc) ?out"
    using dedup_filter_no_clash [of "[]" xs] by (simp add: deduplicateIncidents_def)
  have "\<not> clash (?out ! i) (?out ! j)" if "i < length ?out" "j < length ?out" "i \<noteq> j" for i j
  proof (cases "i < j")
    case True
    with sw that show ?thesis
      by (simp add: sorted_wrt_iff_nth_less)
  next
    case False
    with that have "j < i" by simp
    with sw that have "\<not> clash (?out ! j) (?out ! i)"
      by (simp add: sorted_wrt_iff_nth_less)
    then show ?thesis
      by (simp add: clash_sym [of "?out ! i"])
  qed
  then have apart: "\<forall>i j. i < length ?out \<and> j < length ?out \<and> i \<noteq> j \<longrightarrow>
      \<not> clash (?out ! i) (?out ! j)"
    by blast
  have sub: "subseq ?out xs"
    by (simp add: deduplicateIncidents_def dedup_filter_subseq)
  have nil: "deduplicateIncidents [] = []"
    by (simp add: deduplicateIncidents_def)
  have snoc: "deduplicateIncidents (xs @ [x]) =
       (if \<exists>s\<in>set ?out. clash s x then ?out else ?out @ [x])"
    by (simp add: deduplicateIncidents_def dedup_filter_snoc)
  have reading: "\<forall>s inc a b c d.
        lat s = JNum (Num a) \<and> lng s = JNum (Num b) \<and>
        lat inc = JNum (Num c) \<and> lng inc = JNum (Num d) \<longrightarrow>
        clash s inc =
          (itype s = itype inc \<and> js_lt (js_abs (round_double (a - c))) (Num 0.5) \<and>
           js_lt (js_abs (round_double (b - d))) (Num 0.5))
        \<and> clash s inc =
          (itype s = itype inc \<and> \<bar>a - c\<bar> < 1 / 2 - 1 / 2 ^ 55 \<and> \<bar>b - d\<bar> < 1 / 2 - 1 / 2 ^ 55)"
  proof (intro allI impI conjI)
    fix s inc :: incident and a b c d :: real
    assume h: "lat s = JNum (Num a) \<and> lng s = JNum (Num b) \<and>
        lat inc = JNum (Num c) \<and> lng inc = JNum (Num d)"
    then show "clash s inc =
          (itype s = itype inc \<and> js_lt (js_abs (round_double (a - c))) (Num 0.5) \<and>
           js_lt (js_abs (round_double (b - d))) (Num 0.5))"
      by (simp add: clash_def)
    from h show "clash s inc =
          (itype s = itype inc \<and> \<bar>a - c\<bar> < 1 / 2 - 1 / 2 ^ 55 \<and> \<bar>b - d\<bar> < 1 / 2 - 1 / 2 ^ 55)"
      by (simp add: clash_numeric)
  qed
  show ?thesis
    by (intro conjI apart sub nil snoc reading)
qed

theorem deduplicateIncidents_first_seen_wins_witness:
  "deduplicateIncidents [quake_a, quake_b, flood_c] = [quake_a, flood_c]
   \<and> (0::nat) < length (deduplicateIncidents [quake_a, quake_b, flood_c])
   \<and> (1::nat) < length (deduplicateIncidents [quake_a, quake_b, flood_c])
   \<and> \<not> clash (deduplicateIncidents [quake_a, quake_b, flood_c] ! 0)
            (deduplicateIncidents [quake_a, quake_b, flood_c] ! 1)
   \<and> clash quake_a quake_b"
proof -
  let ?out = "deduplicateIncidents [quake_a, quake_b, flood_c]"
  have len: "0 < length ?out \<and> 1 < length ?out \<and> (0::nat) \<noteq> 1"
    by (simp add: dedup_sample)
  from deduplicateIncidents_first_seen_wins [of "[quake_a, quake_b, flood_c]" flood_c]
  have "\<forall>i j. i < length ?out \<and> j < length ?out \<and> i \<noteq> j \<longrightarrow> \<not> clash (?out ! i) (?out ! j)"
    by (rule conjunct1)
  with len have "\<not> clash (?out ! 0) (?out ! 1)"
    by blast
  moreover have "clash quake_a quake_b"
    by (simp add: clash_def round_double_lt_half sample_defs)
  ultimately show ?thesis
    using len by (simp add: dedup_sample)
qed

text \<open>
  Claim C1, as stated, fails. The literals 0.35 and -0.15 denote doubles that differ by
  \<open>1 / 2 - 1 / 2 ^ 55\<close>, which is below 0.5; the subtraction rounds this to 0.5, the
  test \<open>< 0.5\<close> fails, and both incidents are kept: the output holds two incidents of
  equal type whose latitude difference and longitude difference are both below 0.5.
\<close>

theorem deduplicateIncidents_keeps_near_pair:
  "deduplicateIncidents [near_a, near_b] = [near_a, near_b]
   \<and> \<not> spec_deduplicated (deduplicateIncidents [near_a, near_b])
   \<and> spec_near near_a near_b
   \<and> lat near_a = JNum (round_double 0.35)
   \<and> lat near_b = JNum (round_double (- 0.15))
   \<and> js_sub (toNumber (lat near_a)) (toNumber (lat near_b)) = Num 0.5"
proof -
  have "\<not> spec_deduplicated (deduplicateIncidents [near_a, near_b])"
    by (simp add: dedup_near) (simp add: spec_deduplicated_def spec_near_def near_a_def near_b_def
        report_def)
  moreover have "spec_near near_a near_b"
    by (simp add: spec_near_def near_a_def near_b_def report_def)
  moreover have "lat near_a = JNum (round_double 0.35)"
    by (simp add: near_a_def report_def round_eval)
  moreover have "lat near_b = JNum (round_double (- 0.15))"
    by (simp add: near_b_def report_def round_eval)
  moreover have "js_sub (toNumber (lat near_a)) (toNumber (lat near_b)) = Num 0.5"
    by (simp add: near_a_def near_b_def report_def round_eval)
  ultimately show ?thesis
    by (simp only: dedup_near simp_thms)
qed

section \<open>Proofs: ranking\<close>

lemma rank_key_le:
  "(compareIncidents a b \<le> 0) =
   ((sevRank (severity a), - dateMs (time a)) \<le> (sevRank (severity b), - dateMs (time b)))"
  by (auto simp: compareIncidents_def Let_def less_eq_prod_def)

lemma insert_by_insort:
  "insert_by compareIncidents x ys =
   insort_key (\<lambda>i. (sevRank (severity i), - dateMs (time i))) x ys"
  by (induction ys) (simp_all add: rank_key_le)

lemma rankIncidents_sort_key:
  "rankIncidents xs = sort_key (\<lambda>i. (sevRank (severity i), - dateMs (time i))) xs"
  unfolding rankIncidents_def js_sort_def sort_key_def
  by (induction xs) (simp_all add: insert_by_insort)

lemma sevRank_cases:
  "sevRank s = (if s = ''critical'' then 0 else if s = ''high'' then 1
                else if s = ''moderate'' then 2 else 3)"
  by (simp add: sevRank_def sevOrder_def)

lemma rank_sorted:
  "sorted_wrt (\<lambda>a b. sevRank (severity a) < sevRank (severity b) \<or>
       (sevRank (severity a) = sevRank (severity b) \<and> dateMs (time b) \<le> dateMs (time a)))
     (rankIncidents xs)"
proof -
  let ?key = "\<lambda>i. (sevRank (severity i), - dateMs (time i))"
  have "sorted (map ?key (rankIncidents xs))"
    by (simp add: rankIncidents_sort_key)
  then have "sorted_wrt (\<lambda>a b. ?key a \<le> ?key b) (rankIncidents xs)"
    by (simp add: sorted_map)
  then show ?thesis
    by (rule sorted_wrt_mono_rel [rotated]) (auto simp: less_eq_prod_def)
qed

lemma rank_stable:
  "filter (\<lambda>i. sevRank (severity i) = k \<and> dateMs (time i) = t) (rankIncidents xs) =
   filter (\<lambda>i. sevRank (severity i) = k \<and> dateMs (time i) = t) xs"
  using sort_key_stable [of "\<lambda>i. (sevRank (severity i), - dateMs (time i))" "(k, - t)" xs]
  by (simp add: rankIncidents_sort_key)

lemma spec_older_eq_dated:
  "(\<And>ms. ta = Some ms \<Longrightarrow> 0 < ms) \<Longrightarrow> (\<And>ms. tb = Some ms \<Longrightarrow> 0 < ms) \<Longrightarrow>
   dateMs tb \<le> dateMs ta \<Longrightarrow> spec_older_eq tb ta"
  by (cases ta; cases tb) (auto simp: dateMs_def)

lemma rank_sample:
  "rankIncidents [quake_a, quake_b, flood_c, storm_d] = [quake_b, flood_c, storm_d, quake_a]"
  by (simp add: rankIncidents_def js_sort_def compareIncidents_def sevRank_def sevOrder_def
      dateMs_def sample_defs)

text \<open>
  Claim C2, as the code has it. The output of the ranking is a stable sort of its input:
  sorted by severity tier ascending (critical 0, high 1, moderate 2, low 3, anything
  else 3) and within a tier by time descending, where a missing time counts as the
  instant 0 (the epoch); incidents of equal tier and equal time keep their input order.
  Where every time present lies after the epoch, the output is ranked as the
  specification words it, with a missing time the oldest.
\<close>

theorem rankIncidents_stable_epoch_sort:
  "sorted_wrt (\<lambda>a b. sevRank (severity a) < sevRank (severity b) \<or>
       (sevRank (severity a) = sevRank (severity b) \<and> dateMs (time b) \<le> dateMs (time a)))
     (rankIncidents xs)
   \<and> (\<forall>k t. filter (\<lambda>i. sevRank (severity i) = k \<and> dateMs (time i) = t) (rankIncidents xs) =
             filter (\<lambda>i. sevRank (severity i) = k \<and> dateMs (time i) = t) xs)
   \<and> mset (rankIncidents xs) = mset xs
   \<and> (\<forall>s. sevRank s = (if s = ''critical'' then 0 else if s = ''high'' then 1
                        else if s = ''moderate'' then 2 else 3))
   \<and> dateMs None = 0 \<and> (\<forall>ms. dateMs (Some ms) = ms)
   \<and> ((\<forall>i\<in>set xs. \<forall>ms. time i = Some ms \<longrightarrow> 0 < ms) \<longrightarrow> spec_ranked (rankIncidents xs))"
proof -
  have perm: "mset (rankIncidents xs) = mset xs"
    by (simp add: rankIncidents_sort_key)
  have "spec_ranked (rankIncidents xs)" if dated: "\<forall>i\<in>set xs. \<forall>ms. time i = Some ms \<longrightarrow> 0 < ms"
  proof -
    have "set (rankIncidents xs) = set xs"
      using perm by (metis set_mset_mset)
    with dated have "\<forall>i\<in>set (rankIncidents xs). \<forall>ms. time i = Some ms \<longrightarrow> 0 < ms"
      by simp
    then have "spec_older_eq (time b) (time a)"
      if "a \<in> set (rankIncidents xs)" "b \<in> set (rankIncidents xs)"
        "dateMs (time b) \<le> dateMs (time a)" for a b
      using that by (auto intro: spec_older_eq_dated)
    then show ?thesis
      unfolding spec_ranked_def
      by (intro sorted_wrt_mono_rel [OF _ rank_sorted [of xs]]) auto
  qed
  with perm rank_sorted [of xs] rank_stable [of _ _ xs] show ?thesis
    by (simp add: sevRank_cases dateMs_def)
qed

theorem rankIncidents_stable_epoch_sort_witness:
  "spec_ranked (rankIncidents [quake_a, quake_b, flood_c, storm_d])
   \<and> rankIncidents [quake_a, quake_b, flood_c, storm_d] = [quake_b, flood_c, storm_d, quake_a]
   \<and> time quake_a = Some 1000 \<and> time quake_b = Some 2000
   \<and> time flood_c = Some 3000 \<and> time storm_d = Some 3000"
proof -
  have dated: "\<forall>i\<in>set [quake_a, quake_b, flood_c, storm_d]. \<forall>ms. time i = Some ms \<longrightarrow> 0 < ms"
    by (simp add: sample_defs)
  with rankIncidents_stable_epoch_sort [of "[quake_a, quake_b, flood_c, storm_d]"]
  have "spec_ranked (rankIncidents [quake_a, quake_b, flood_c, storm_d])"
    by blast
  moreover have "time quake_a = Some 1000 \<and> time quake_b = Some 2000
      \<and> time flood_c = Some 3000 \<and> time storm_d = Some 3000"
    by (simp add: sample_defs)
  ultimately show ?thesis
    by (simp only: rank_sample simp_thms)
qed

text \<open>
  Claim C2, as stated, fails: an incident without a time is ranked before an incident of
  the same tier dated one millisecond before the epoch, so the missing time is not
  treated as the oldest value.
\<close>

theorem rankIncidents_missing_time_not_oldest:
  "\<not> spec_ranked (rankIncidents [undated_report, old_report])"
  by (simp add: spec_ranked_def rankIncidents_def js_sort_def compareIncidents_def sevRank_def
      sevOrder_def dateMs_def sample_defs)

section \<open>Proofs: aggregation\<close>

lemma collect_settled:
  "collect 0 (settled_results r) ([], Map.empty) =
     (contribution (usgs_result r) @ contribution (nasa_result r) @ contribution (gdacs_result r) @
      contribution (reliefweb_result r) @ contribution (reddit_result r),
      [''USGS'' \<mapsto> status_entry (usgs_result r),
       ''NASA EONET'' \<mapsto> status_entry (nasa_result r),
       ''GDACS'' \<mapsto> status_entry (gdacs_result r),
       ''ReliefWeb'' \<mapsto> status_entry (reliefweb_result r),
       ''Reddit'' \<mapsto> status_entry (reddit_result r)])"
  by (cases "usgs_result r"; cases "nasa_result r"; cases "gdacs_result r";
      cases "reliefweb_result r"; cases "reddit_result r")
    (simp_all add: settled_results_def sourceNames_def contribution_def status_entry_def)

lemma aggregate_sample:
  "incidents (aggregateAllSources sample_results now) = [flood_c, storm_d, quake_a]"
  by (simp add: aggregateAllSources_def collect_settled contribution_def sample_results_def
      deduplicateIncidents_def clash_def round_double_lt_half rankIncidents_def js_sort_def
      compareIncidents_def sevRank_def sevOrder_def dateMs_def sample_defs)

lemma aggregate_other:
  "incidents (aggregateAllSources other_results now) = [flood_c]"
  by (simp add: aggregateAllSources_def collect_settled contribution_def other_results_def
      deduplicateIncidents_def rankIncidents_def js_sort_def)

lemma aggregate_fetchedAt: "fetchedAt (aggregateAllSources r now) = now"
  by (simp add: aggregateAllSources_def Let_def split: prod.split)

text \<open>
  Claim C3. Given what the five adapters settled to, the aggregation concatenates the
  lists of the fulfilled ones in the order USGS, NASA EONET, GDACS, ReliefWeb, Reddit,
  a rejected one adding nothing and taking nothing away; the incidents served are that
  concatenation deduplicated and ranked; and \<open>sourceStatus\<close> maps each source name to
  its count when fulfilled and to its error when rejected.
\<close>

theorem aggregateAllSources_concatenates_settled:
  "incidents (aggregateAllSources r now) =
     rankIncidents (deduplicateIncidents
       (contribution (usgs_result r) @ contribution (nasa_result r) @ contribution (gdacs_result r) @
        contribution (reliefweb_result r) @ contribution (reddit_result r)))
   \<and> sourceStatus (aggregateAllSources r now) =
       [''USGS'' \<mapsto> status_entry (usgs_result r),
        ''NASA EONET'' \<mapsto> status_entry (nasa_result r),
        ''GDACS'' \<mapsto> status_entry (gdacs_result r),
        ''ReliefWeb'' \<mapsto> status_entry (reliefweb_result r),
        ''Reddit'' \<mapsto> status_entry (reddit_result r)]
   \<and> fst (collect 0 (settled_results r) ([], Map.empty)) =
       contribution (usgs_result r) @ contribution (nasa_result r) @ contribution (gdacs_result r) @
       contribution (reliefweb_result r) @ contribution (reddit_result r)
   \<and> (\<forall>v. contribution (Fulfilled v) = v \<and> status_entry (Fulfilled v) = StatusOk (length v))
   \<and> (\<forall>e. contribution (Rejected e) = [] \<and> status_entry (Rejected e) = StatusFailed e)"
  by (simp add: aggregateAllSources_def collect_settled contribution_def status_entry_def)

theorem aggregateAllSources_concatenates_settled_witness:
  "incidents (aggregateAllSources sample_results 1500) = [flood_c, storm_d, quake_a]
   \<and> sourceStatus (aggregateAllSources sample_results 1500) ''USGS'' = Some (StatusOk 2)
   \<and> sourceStatus (aggregateAllSources sample_results 1500) ''NASA EONET'' =
       Some (StatusFailed (NetworkError ''timeout of 10000ms exceeded''))
   \<and> sourceStatus (aggregateAllSources sample_results 1500) ''GDACS'' = Some (StatusOk 1)
   \<and> sourceStatus (aggregateAllSources sample_results 1500) ''ReliefWeb'' =
       Some (StatusFailed TypeError)
   \<and> sourceStatus (aggregateAllSources sample_results 1500) ''Reddit'' = Some (StatusOk 1)"
proof -
  from aggregateAllSources_concatenates_settled [of sample_results 1500]
  have "sourceStatus (aggregateAllSources sample_results 1500) =
       [''USGS'' \<mapsto> status_entry (usgs_result sample_results),
        ''NASA EONET'' \<mapsto> status_entry (nasa_result sample_results),
        ''GDACS'' \<mapsto> status_entry (gdacs_result sample_results),
        ''ReliefWeb'' \<mapsto> status_entry (reliefweb_result sample_results),
        ''Reddit'' \<mapsto> status_entry (reddit_result sample_results)]"
    by (rule conjunct2 [THEN conjunct1])
  then have "sourceStatus (aggregateAllSources sample_results 1500) ''USGS'' = Some (StatusOk 2)
   \<and> sourceStatus (aggregateAllSources sample_results 1500) ''NASA EONET'' =
       Some (StatusFailed (NetworkError ''timeout of 10000ms exceeded''))
   \<and> sourceStatus (aggregateAllSources sample_results 1500) ''GDACS'' = Some (StatusOk 1)
   \<and> sourceStatus (aggregateAllSources sample_results 1500) ''ReliefWeb'' =
       Some (StatusFailed TypeError)
   \<and> sourceStatus (aggregateAllSources sample_results 1500) ''Reddit'' = Some (StatusOk 1)"
    by (simp add: status_entry_def sample_results_def)
  with aggregate_sample [of 1500] show ?thesis
    by blast
qed

section \<open>Proofs: the cache\<close>

lemma getAll_hit:
  "t \<noteq> 0 \<Longrightarrow> now - t < CACHE_TTL_MS \<Longrightarrow>
   getAllIncidents now r fetched stored \<lparr>data = Some d, timestamp = Some t\<rparr> =
     (\<lparr>data = Some d, timestamp = Some t\<rparr>, \<lparr>body = d, fromCache = True\<rparr>)"
  by (simp add: getAllIncidents_def cache_fresh_def)

lemma getAll_miss:
  "\<not> cache_fresh now c \<Longrightarrow>
   getAllIncidents now r fetched stored c =
     (\<lparr>data = Some (aggregateAllSources r fetched), timestamp = Some stored\<rparr>,
      \<lparr>body = aggregateAllSources r fetched, fromCache = False\<rparr>)"
  by (simp add: getAllIncidents_def Let_def)

lemma getAll_fresh:
  "cache_fresh now c \<Longrightarrow>
   getAllIncidents now r fetched stored c = (c, \<lparr>body = the (data c), fromCache = True\<rparr>)"
  by (auto simp: getAllIncidents_def cache_fresh_def)

lemma cache_stale:
  "data c = None \<or> timestamp c = None \<or> (\<exists>t. timestamp c = Some t \<and> CACHE_TTL_MS \<le> now - t) \<Longrightarrow>
   \<not> cache_fresh now c"
  by (auto simp: cache_fresh_def)

text \<open>
  Claim C4. The TTL is three minutes. A cache entry is a cache whose \<open>data\<close> and
  \<open>timestamp\<close> the handler finds truthy, so its timestamp is not 0. If there is one
  and less than the TTL has passed since it was stored, the handler returns it unchanged
  with \<open>fromCache\<close> true and leaves the cache alone; without an entry, or once the TTL
  has passed, it runs the pipeline, stores the result with the clock read then and
  returns it with \<open>fromCache\<close> false. So a second call within the TTL of the first
  returns the same result from the cache, as do two calls that both find the entry
  fresh, and a call after the TTL recomputes, with a later \<open>fetchedAt\<close> as the clock
  does not run backwards.
\<close>

theorem getAllIncidents_cache_ttl:
  "CACHE_TTL_MS = 180000
   \<and> (\<forall>d t. t \<noteq> 0 \<and> now - t < CACHE_TTL_MS \<longrightarrow>
        getAllIncidents now r fetched stored \<lparr>data = Some d, timestamp = Some t\<rparr> =
          (\<lparr>data = Some d, timestamp = Some t\<rparr>, \<lparr>body = d, fromCache = True\<rparr>))
   \<and> (\<forall>c. data c = None \<or> timestamp c = None \<or>
            (\<exists>t. timestamp c = Some t \<and> CACHE_TTL_MS \<le> now - t) \<longrightarrow>
        getAllIncidents now r fetched stored c =
          (\<lparr>data = Some (aggregateAllSources r fetched), timestamp = Some stored\<rparr>,
           \<lparr>body = aggregateAllSources r fetched, fromCache = False\<rparr>))
   \<and> (\<forall>c0 now1 r1 fetched1 stored1 now2 r2 fetched2 stored2.
        \<not> cache_fresh now1 c0 \<and> stored1 \<noteq> 0 \<and> now2 - stored1 < CACHE_TTL_MS \<longrightarrow>
        (let first = getAllIncidents now1 r1 fetched1 stored1 c0;
             second = getAllIncidents now2 r2 fetched2 stored2 (fst first)
         in incidents (body (snd second)) = incidents (body (snd first))
            \<and> body (snd second) = body (snd first)
            \<and> \<not> fromCache (snd first) \<and> fromCache (snd second)
            \<and> fst second = fst first))
   \<and> (\<forall>c0 now1 r1 fetched1 stored1 now2 r2 fetched2 stored2.
        cache_fresh now1 c0 \<and> cache_fresh now2 c0 \<longrightarrow>
        (let first = getAllIncidents now1 r1 fetched1 stored1 c0;
             second = getAllIncidents now2 r2 fetched2 stored2 (fst first)
         in body (snd second) = body (snd first)
            \<and> fromCache (snd first) \<and> fromCache (snd second)
            \<and> fst second = c0))
   \<and> (\<forall>c0 now1 r1 fetched1 stored1 now3 r3 fetched3 stored3.
        \<not> cache_fresh now1 c0 \<and> fetched1 \<le> stored1 \<and>
        CACHE_TTL_MS \<le> now3 - stored1 \<and> now3 \<le> fetched3 \<longrightarrow>
        (let first = getAllIncidents now1 r1 fetched1 stored1 c0;
             third = getAllIncidents now3 r3 fetched3 stored3 (fst first)
         in \<not> fromCache (snd third)
            \<and> body (snd third) = aggregateAllSources r3 fetched3
            \<and> fst third =
                \<lparr>data = Some (aggregateAllSources r3 fetched3), timestamp = Some stored3\<rparr>
            \<and> fetchedAt (body (snd first)) < fetchedAt (body (snd third))))"
proof -
  have ttl: "CACHE_TTL_MS = 180000"
    by (simp add: CACHE_TTL_MS_def)
  show ?thesis
    apply (intro conjI allI impI)
    subgoal by (rule ttl)
    subgoal by (simp add: getAll_hit)
    subgoal by (simp add: getAll_miss cache_stale)
    subgoal by (simp add: getAll_miss getAll_hit Let_def)
    subgoal by (simp add: Let_def getAll_fresh)
    subgoal for c0 now1 r1 fetched1 stored1 now3 r3 fetched3 stored3
      using cache_stale
        [of "\<lparr>data = Some (aggregateAllSources r1 fetched1), timestamp = Some stored1\<rparr>" now3]
      by (simp add: getAll_miss Let_def aggregate_fetchedAt ttl)
    done
qed

theorem getAllIncidents_cache_ttl_witness:
  "\<not> fromCache (snd (getAllIncidents 1000 sample_results 1500 2000 initial_cache))
   \<and> fst (getAllIncidents 1000 sample_results 1500 2000 initial_cache) =
       \<lparr>data = Some (aggregateAllSources sample_results 1500), timestamp = Some 2000\<rparr>
   \<and> getAllIncidents 100000 other_results 100500 101000
        \<lparr>data = Some (aggregateAllSources sample_results 1500), timestamp = Some 2000\<rparr> =
       (\<lparr>data = Some (aggregateAllSources sample_results 1500), timestamp = Some 2000\<rparr>,
        \<lparr>body = aggregateAllSources sample_results 1500, fromCache = True\<rparr>)
   \<and> getAllIncidents 182000 other_results 182500 183000
        \<lparr>data = Some (aggregateAllSources sample_results 1500), timestamp = Some 2000\<rparr> =
       (\<lparr>data = Some (aggregateAllSources other_results 182500), timestamp = Some 183000\<rparr>,
        \<lparr>body = aggregateAllSources other_results 182500, fromCache = False\<rparr>)"
proof -
  let ?c1 = "\<lparr>data = Some (aggregateAllSources sample_results 1500), timestamp = Some 2000\<rparr>"
  have miss: "data initial_cache = None \<or> timestamp initial_cache = None \<or>
      (\<exists>t. timestamp initial_cache = Some t \<and> CACHE_TTL_MS \<le> 1000 - t)"
    by (simp add: initial_cache_def)
  have first: "getAllIncidents 1000 sample_results 1500 2000 initial_cache =
      (?c1, \<lparr>body = aggregateAllSources sample_results 1500, fromCache = False\<rparr>)"
    by (rule getAllIncidents_cache_ttl [of 1000 sample_results 1500 2000,
          THEN conjunct2, THEN conjunct2, THEN conjunct1, rule_format, OF miss])
  have fresh: "(2000::int) \<noteq> 0 \<and> 100000 - 2000 < CACHE_TTL_MS"
    by (simp add: CACHE_TTL_MS_def)
  have second: "getAllIncidents 100000 other_results 100500 101000 ?c1 =
      (?c1, \<lparr>body = aggregateAllSources sample_results 1500, fromCache = True\<rparr>)"
    by (rule getAllIncidents_cache_ttl [of 100000 other_results 100500 101000,
          THEN conjunct2, THEN conjunct1, rule_format, OF fresh])
  have stale: "data ?c1 = None \<or> timestamp ?c1 = None \<or>
      (\<exists>t. timestamp ?c1 = Some t \<and> CACHE_TTL_MS \<le> 182000 - t)"
    by (simp add: CACHE_TTL_MS_def)
  have third: "getAllIncidents 182000 other_results 182500 183000 ?c1 =
      (\<lparr>data = Some (aggregateAllSources other_results 182500), timestamp = Some 183000\<rparr>,
       \<lparr>body = aggregateAllSources other_results 182500, fromCache = False\<rparr>)"
    by (rule getAllIncidents_cache_ttl [of 182000 other_results 182500 183000,
          THEN conjunct2, THEN conjunct2, THEN conjunct1, rule_format, OF stale])
  from first second third show ?thesis
    by simp
qed

text \<open>
  Claim C10. The handler of a type query takes no clock: with any cache that holds data,
  whatever its timestamp, it filters the cached incidents; with an empty cache it filters
  the incidents of a fresh aggregation. In both cases it leaves the cache as it found it,
  so after a type query on an empty cache the next call of the main handler still runs
  the pipeline.
\<close>

theorem getIncidentsByType_ignores_ttl:
  "(\<forall>d ts. getIncidentsByType ty r fetched \<lparr>data = Some d, timestamp = ts\<rparr> =
        (\<lparr>data = Some d, timestamp = ts\<rparr>,
         \<lparr>filtered = filter (\<lambda>i. itype i = ty) (incidents d),
          count = length (filter (\<lambda>i. itype i = ty) (incidents d))\<rparr>))
   \<and> (\<forall>ts. getIncidentsByType ty r fetched \<lparr>data = None, timestamp = ts\<rparr> =
        (\<lparr>data = None, timestamp = ts\<rparr>,
         \<lparr>filtered = filter (\<lambda>i. itype i = ty) (incidents (aggregateAllSources r fetched)),
          count = length (filter (\<lambda>i. itype i = ty) (incidents (aggregateAllSources r fetched)))\<rparr>))
   \<and> fst (getIncidentsByType ty r fetched c) = c
   \<and> (\<forall>ts now r' fetched' stored'.
        getAllIncidents now r' fetched' stored'
          (fst (getIncidentsByType ty r fetched \<lparr>data = None, timestamp = ts\<rparr>)) =
        (\<lparr>data = Some (aggregateAllSources r' fetched'), timestamp = Some stored'\<rparr>,
         \<lparr>body = aggregateAllSources r' fetched', fromCache = False\<rparr>))"
  by (simp add: getIncidentsByType_def Let_def getAll_miss cache_fresh_def)

theorem getIncidentsByType_ignores_ttl_witness:
  "\<not> cache_fresh 999999 \<lparr>data = Some (aggregateAllSources sample_results 1500), timestamp = Some 2000\<rparr>
   \<and> getIncidentsByType ''flood'' other_results 999999
        \<lparr>data = Some (aggregateAllSources sample_results 1500), timestamp = Some 2000\<rparr> =
       (\<lparr>data = Some (aggregateAllSources sample_results 1500), timestamp = Some 2000\<rparr>,
        \<lparr>filtered = [flood_c], count = 1\<rparr>)
   \<and> getIncidentsByType ''flood'' other_results 999999 initial_cache =
       (initial_cache, \<lparr>filtered = [flood_c], count = 1\<rparr>)
   \<and> fromCache (snd (getAllIncidents 1000000 other_results 1000500 1001000
        (fst (getIncidentsByType ''flood'' other_results 999999 initial_cache)))) = False"
proof -
  note T = getIncidentsByType_ignores_ttl [of "''flood''" other_results 999999 initial_cache]
  have "getIncidentsByType ''flood'' other_results 999999
        \<lparr>data = Some (aggregateAllSources sample_results 1500), timestamp = Some 2000\<rparr> =
       (\<lparr>data = Some (aggregateAllSources sample_results 1500), timestamp = Some 2000\<rparr>,
        \<lparr>filtered = [flood_c], count = 1\<rparr>)"
    using T [THEN conjunct1, rule_format, of "aggregateAllSources sample_results 1500" "Some 2000"]
    by (simp add: aggregate_sample sample_defs)
  moreover have "getIncidentsByType ''flood'' other_results 999999 initial_cache =
       (initial_cache, \<lparr>filtered = [flood_c], count = 1\<rparr>)"
    using T [THEN conjunct2, THEN conjunct1, rule_format, of None]
    by (simp add: initial_cache_def aggregate_other sample_defs)
  moreover have "fromCache (snd (getAllIncidents 1000000 other_results 1000500 1001000
        (fst (getIncidentsByType ''flood'' other_results 999999 initial_cache)))) = False"
    using T [THEN conjunct2, THEN conjunct2, THEN conjunct2, rule_format]
    by (simp add: initial_cache_def)
  moreover have "\<not> cache_fresh 999999
      \<lparr>data = Some (aggregateAllSources sample_results 1500), timestamp = Some 2000\<rparr>"
    by (simp add: cache_fresh_def CACHE_TTL_MS_def)
  ultimately show ?thesis
    by blast
qed

section \<open>Proofs: the seismic adapter\<close>

lemma toFixed1_tenth:
  "\<exists>n::int. toFixed1 x = of_int n / 10 \<and> \<bar>of_int n / 10 - x\<bar> \<le> 1 / 20"
proof (cases "x < 0")
  case True
  define n where "n = \<lfloor>- x * 10 + 1 / 2\<rfloor>"
  have "of_int n \<le> - x * 10 + 1 / 2" "- x * 10 + 1 / 2 < of_int n + 1"
    unfolding n_def by linarith+
  then have "\<bar>- (real_of_int n / 10) - x\<bar> \<le> 1 / 20"
    by linarith
  moreover have "toFixed1 x = - (real_of_int n / 10)"
    using True by (simp add: toFixed1_def n_def)
  ultimately show ?thesis
    by (intro exI [of _ "- n"]) simp
next
  case False
  define n where "n = \<lfloor>x * 10 + 1 / 2\<rfloor>"
  have "of_int n \<le> x * 10 + 1 / 2" "x * 10 + 1 / 2 < of_int n + 1"
    unfolding n_def by linarith+
  then have "\<bar>of_int n / 10 - x\<bar> \<le> 1 / 20"
    by linarith
  moreover have "toFixed1 x = of_int n / 10"
    using False by (simp add: toFixed1_def n_def)
  ultimately show ?thesis
    by blast
qed

lemma usgs_severity_num:
  "usgs_severity (Some (Num m)) =
     (if 6.5 \<le> m then ''critical'' else if 5.5 \<le> m then ''high''
      else if 4.5 \<le> m then ''moderate'' else ''low'')"
  by (simp add: usgs_severity_def)

lemma usgs_incident_fields:
  "usgs_incident f = Inr i \<Longrightarrow>
   \<exists>mag. f_mag f = Some mag \<and> severity i = usgs_severity (Some mag) \<and>
         magnitude i = Some (round_magnitude mag) \<and>
         lat i = at_index (f_coordinates f) 1 \<and> lng i = at_index (f_coordinates f) 0"
  by (auto simp: usgs_incident_def split: option.splits sum.splits jsval.splits)

lemma usgs_incident_built:
  "f_mag f = Some (Num m) \<Longrightarrow> date_of_number (f_time f) = Inr ms \<Longrightarrow>
   at_index (f_coordinates f) 2 = JNum depth \<Longrightarrow>
   usgs_incident f =
     Inr \<lparr>ident = ''usgs_'' @ f_id f, itype = ''earthquake'', title = f_title f,
          location = f_place f, lat = at_index (f_coordinates f) 1,
          lng = at_index (f_coordinates f) 0,
          severity = (if 6.5 \<le> m then ''critical'' else if 5.5 \<le> m then ''high''
                      else if 4.5 \<le> m then ''moderate'' else ''low''),
          magnitude = Some (round_double (toFixed1 m)), time = Some ms,
          source = ''USGS Earthquake Hazards''\<rparr>"
  by (simp add: usgs_incident_def usgs_severity_num)

lemma map_throwing_set:
  "map_throwing g xs = Inr ys \<Longrightarrow> y \<in> set ys \<Longrightarrow> \<exists>x\<in>set xs. g x = Inr y"
  by (induction xs arbitrary: ys) (auto split: sum.splits)

lemma map_throwing_all2:
  "list_all2 (\<lambda>x y. g x = Inr y) xs ys \<Longrightarrow> map_throwing g xs = Inr ys"
  by (induction xs ys rule: list_all2_induct) simp_all

lemma fetchUSGS_origin:
  "fetchUSGS (Inr features) = Fulfilled out \<Longrightarrow> i \<in> set out \<Longrightarrow>
   (\<exists>f\<in>set features. usgs_incident f = Inr i) \<and> truthy (lat i) \<and> truthy (lng i)"
  by (auto simp: fetchUSGS_def split: sum.splits dest: map_throwing_set)

lemma fetchUSGS_mapped:
  "list_all2 (\<lambda>f i. usgs_incident f = Inr i) features mapped \<Longrightarrow>
   fetchUSGS (Inr features) = Fulfilled (filter (\<lambda>i. truthy (lat i) \<and> truthy (lng i)) mapped)"
  by (simp add: fetchUSGS_def map_throwing_all2)

lemma strong_quake_incident:
  "usgs_incident strong_quake =
     Inr \<lparr>ident = ''usgs_us7000'', itype = ''earthquake'', title = ''M 6.6 - Off the coast'',
          location = ''Off the coast'', lat = JNum (Num 38.25), lng = JNum (Num 142.5),
          severity = ''critical'', magnitude = Some (round_double 6.6),
          time = Some 1700000000000, source = ''USGS Earthquake Hazards''\<rparr>"
  by (simp add: usgs_incident_def strong_quake_def at_index_def usgs_severity_def toFixed1_def)

lemma weak_quake_incident:
  "usgs_incident weak_quake =
     Inr \<lparr>ident = ''usgs_us7003'', itype = ''earthquake'', title = ''M 3.0 - Inland'',
          location = ''Inland'', lat = JNum (Num (- 33.25)), lng = JNum (Num (- 70.5)),
          severity = ''low'', magnitude = Some (round_double 3),
          time = Some 1700000000500, source = ''USGS Earthquake Hazards''\<rparr>"
  by (simp add: usgs_incident_def weak_quake_def at_index_def usgs_severity_def toFixed1_def)

lemma equator_quake_incident:
  "usgs_incident equator_quake =
     Inr \<lparr>ident = ''usgs_us7001'', itype = ''earthquake'', title = ''M 5.6 - Equator'',
          location = ''Equator'', lat = JNum (Num 0), lng = JNum (Num 100.5),
          severity = ''high'', magnitude = Some (round_double 5.6),
          time = Some 1700000000000, source = ''USGS Earthquake Hazards''\<rparr>"
  by (simp add: usgs_incident_def equator_quake_def at_index_def usgs_severity_def toFixed1_def)

lemma fetchUSGS_sample:
  "fetchUSGS (Inr [strong_quake, equator_quake]) =
     Fulfilled [\<lparr>ident = ''usgs_us7000'', itype = ''earthquake'', title = ''M 6.6 - Off the coast'',
          location = ''Off the coast'', lat = JNum (Num 38.25), lng = JNum (Num 142.5),
          severity = ''critical'', magnitude = Some (round_double 6.6),
          time = Some 1700000000000, source = ''USGS Earthquake Hazards''\<rparr>]"
  by (simp add: fetchUSGS_def strong_quake_incident equator_quake_incident)

text \<open>
  Claim C6. From a record with a numeric magnitude \<open>m\<close>, a valid time and a numeric
  depth, the seismic adapter builds the incident whose severity is critical for
  \<open>m \<ge> 6.5\<close>, else high for \<open>m \<ge> 5.5\<close>, else moderate for \<open>m \<ge> 4.5\<close>, else low, and
  whose magnitude is the double nearest to \<open>m\<close> rounded to one decimal place, a
  multiple of one tenth within one twentieth of \<open>m\<close>. When every record of a feed
  builds its incident, the adapter returns exactly those incidents, in the order of the
  feed, that have truthy coordinates; and every incident the adapter returns was built
  from one of the records. Magnitudes 6.6, 5.6, 4.6 and 3.0 give critical, high, moderate
  and low.
\<close>

theorem fetchUSGS_severity_thresholds:
  "(\<forall>f m ms depth.
      f_mag f = Some (Num m) \<and> date_of_number (f_time f) = Inr ms \<and>
      at_index (f_coordinates f) 2 = JNum depth \<longrightarrow>
      usgs_incident f =
        Inr \<lparr>ident = ''usgs_'' @ f_id f, itype = ''earthquake'', title = f_title f,
             location = f_place f, lat = at_index (f_coordinates f) 1,
             lng = at_index (f_coordinates f) 0,
             severity = (if 6.5 \<le> m then ''critical'' else if 5.5 \<le> m then ''high''
                         else if 4.5 \<le> m then ''moderate'' else ''low''),
             magnitude = Some (round_double (toFixed1 m)), time = Some ms,
             source = ''USGS Earthquake Hazards''\<rparr>)
   \<and> (\<forall>m. \<exists>n::int. toFixed1 m = of_int n / 10 \<and> \<bar>of_int n / 10 - m\<bar> \<le> 1 / 20)
   \<and> (\<forall>features mapped.
        list_all2 (\<lambda>f i. usgs_incident f = Inr i) features mapped \<longrightarrow>
        fetchUSGS (Inr features) =
          Fulfilled (filter (\<lambda>i. truthy (lat i) \<and> truthy (lng i)) mapped))
   \<and> (\<forall>f i m. usgs_incident f = Inr i \<and> f_mag f = Some (Num m) \<longrightarrow>
      severity i = (if 6.5 \<le> m then ''critical'' else if 5.5 \<le> m then ''high''
                    else if 4.5 \<le> m then ''moderate'' else ''low'')
      \<and> (\<exists>n::int. magnitude i = Some (round_double (of_int n / 10)) \<and>
            \<bar>of_int n / 10 - m\<bar> \<le> 1 / 20))
   \<and> (\<forall>features out i. fetchUSGS (Inr features) = Fulfilled out \<and> i \<in> set out \<longrightarrow>
        (\<exists>f\<in>set features. usgs_incident f = Inr i))
   \<and> usgs_severity (Some (Num 6.6)) = ''critical''
   \<and> usgs_severity (Some (Num 5.6)) = ''high''
   \<and> usgs_severity (Some (Num 4.6)) = ''moderate''
   \<and> usgs_severity (Some (Num 3.0)) = ''low''"
proof (intro conjI allI impI)
  fix f :: usgs_feature and m :: real and ms :: int and depth :: jsnum
  assume "f_mag f = Some (Num m) \<and> date_of_number (f_time f) = Inr ms \<and>
      at_index (f_coordinates f) 2 = JNum depth"
  then show "usgs_incident f =
        Inr \<lparr>ident = ''usgs_'' @ f_id f, itype = ''earthquake'', title = f_title f,
             location = f_place f, lat = at_index (f_coordinates f) 1,
             lng = at_index (f_coordinates f) 0,
             severity = (if 6.5 \<le> m then ''critical'' else if 5.5 \<le> m then ''high''
                         else if 4.5 \<le> m then ''moderate'' else ''low''),
             magnitude = Some (round_double (toFixed1 m)), time = Some ms,
             source = ''USGS Earthquake Hazards''\<rparr>"
    by (intro usgs_incident_built) simp_all
next
  fix m :: real
  show "\<exists>n::int. toFixed1 m = of_int n / 10 \<and> \<bar>of_int n / 10 - m\<bar> \<le> 1 / 20"
    by (rule toFixed1_tenth)
next
  fix features mapped
  assume "list_all2 (\<lambda>f i. usgs_incident f = Inr i) features mapped"
  then show "fetchUSGS (Inr features) =
      Fulfilled (filter (\<lambda>i. truthy (lat i) \<and> truthy (lng i)) mapped)"
    by (rule fetchUSGS_mapped)
next
  fix f :: usgs_feature and i :: incident and m :: real
  assume h: "usgs_incident f = Inr i \<and> f_mag f = Some (Num m)"
  with usgs_incident_fields [of f i]
  have sev: "severity i = usgs_severity (Some (Num m))"
    and mag: "magnitude i = Some (round_double (toFixed1 m))"
    by auto
  from sev show "severity i = (if 6.5 \<le> m then ''critical'' else if 5.5 \<le> m then ''high''
                    else if 4.5 \<le> m then ''moderate'' else ''low'')"
    by (simp only: usgs_severity_num)
  from toFixed1_tenth [of m] obtain n :: int
    where "toFixed1 m = of_int n / 10" "\<bar>of_int n / 10 - m\<bar> \<le> 1 / 20"
    by blast
  with mag show "\<exists>n::int. magnitude i = Some (round_double (of_int n / 10)) \<and>
      \<bar>of_int n / 10 - m\<bar> \<le> 1 / 20"
    by auto
next
  fix features out i
  assume "fetchUSGS (Inr features) = Fulfilled out \<and> i \<in> set out"
  then show "\<exists>f\<in>set features. usgs_incident f = Inr i"
    using fetchUSGS_origin by blast
qed (simp_all add: usgs_severity_num)

theorem fetchUSGS_severity_thresholds_witness:
  "fetchUSGS (Inr [strong_quake, weak_quake, equator_quake]) =
     Fulfilled
       [\<lparr>ident = ''usgs_us7000'', itype = ''earthquake'', title = ''M 6.6 - Off the coast'',
         location = ''Off the coast'', lat = JNum (Num 38.25), lng = JNum (Num 142.5),
         severity = ''critical'', magnitude = Some (round_double 6.6),
         time = Some 1700000000000, source = ''USGS Earthquake Hazards''\<rparr>,
        \<lparr>ident = ''usgs_us7003'', itype = ''earthquake'', title = ''M 3.0 - Inland'',
         location = ''Inland'', lat = JNum (Num (- 33.25)), lng = JNum (Num (- 70.5)),
         severity = ''low'', magnitude = Some (round_double 3),
         time = Some 1700000000500, source = ''USGS Earthquake Hazards''\<rparr>]
   \<and> f_mag strong_quake = Some (Num 6.625)
   \<and> f_mag weak_quake = Some (Num 3)
   \<and> round_double 6.6 = Num (7430939385161318 / 2 ^ 50)
   \<and> round_double 3 = Num 3"
proof -
  note T = fetchUSGS_severity_thresholds
  have strong: "f_mag strong_quake = Some (Num 6.625) \<and>
      date_of_number (f_time strong_quake) = Inr 1700000000000 \<and>
      at_index (f_coordinates strong_quake) 2 = JNum (Num 10)"
    by (simp add: strong_quake_def at_index_def)
  have weak: "f_mag weak_quake = Some (Num 3) \<and>
      date_of_number (f_time weak_quake) = Inr 1700000000500 \<and>
      at_index (f_coordinates weak_quake) 2 = JNum (Num 12)"
    by (simp add: weak_quake_def at_index_def)
  have equator: "f_mag equator_quake = Some (Num 5.625) \<and>
      date_of_number (f_time equator_quake) = Inr 1700000000000 \<and>
      at_index (f_coordinates equator_quake) 2 = JNum (Num 33)"
    by (simp add: equator_quake_def at_index_def)
  note built = T [THEN conjunct1, rule_format]
  have all: "list_all2 (\<lambda>f i. usgs_incident f = Inr i)
      [strong_quake, weak_quake, equator_quake]
      [\<lparr>ident = ''usgs_'' @ f_id strong_quake, itype = ''earthquake'',
        title = f_title strong_quake, location = f_place strong_quake,
        lat = at_index (f_coordinates strong_quake) 1,
        lng = at_index (f_coordinates strong_quake) 0,
        severity = (if 6.5 \<le> (6.625::real) then ''critical'' else if 5.5 \<le> (6.625::real) then ''high''
                    else if 4.5 \<le> (6.625::real) then ''moderate'' else ''low''),
        magnitude = Some (round_double (toFixed1 6.625)), time = Some 1700000000000,
        source = ''USGS Earthquake Hazards''\<rparr>,
       \<lparr>ident = ''usgs_'' @ f_id weak_quake, itype = ''earthquake'',
        title = f_title weak_quake, location = f_place weak_quake,
        lat = at_index (f_coordinates weak_quake) 1,
        lng = at_index (f_coordinates weak_quake) 0,
        severity = (if 6.5 \<le> (3::real) then ''critical'' else if 5.5 \<le> (3::real) then ''high''
                    else if 4.5 \<le> (3::real) then ''moderate'' else ''low''),
        magnitude = Some (round_double (toFixed1 3)), time = Some 1700000000500,
        source = ''USGS Earthquake Hazards''\<rparr>,
       \<lparr>ident = ''usgs_'' @ f_id equator_quake, itype = ''earthquake'',
        title = f_title equator_quake, location = f_place equator_quake,
        lat = at_index (f_coordinates equator_quake) 1,
        lng = at_index (f_coordinates equator_quake) 0,
        severity = (if 6.5 \<le> (5.625::real) then ''critical'' else if 5.5 \<le> (5.625::real) then ''high''
                    else if 4.5 \<le> (5.625::real) then ''moderate'' else ''low''),
        magnitude = Some (round_double (toFixed1 5.625)), time = Some 1700000000000,
        source = ''USGS Earthquake Hazards''\<rparr>]"
    by (simp only: list_all2_Cons list_all2_Nil built [OF strong] built [OF weak]
        built [OF equator] simp_thms)
  from T [THEN conjunct2, THEN conjunct2, THEN conjunct1, rule_format, OF all]
  have "fetchUSGS (Inr [strong_quake, weak_quake, equator_quake]) =
     Fulfilled
       [\<lparr>ident = ''usgs_us7000'', itype = ''earthquake'', title = ''M 6.6 - Off the coast'',
         location = ''Off the coast'', lat = JNum (Num 38.25), lng = JNum (Num 142.5),
         severity = ''critical'', magnitude = Some (round_double 6.6),
         time = Some 1700000000000, source = ''USGS Earthquake Hazards''\<rparr>,
        \<lparr>ident = ''usgs_us7003'', itype = ''earthquake'', title = ''M 3.0 - Inland'',
         location = ''Inland'', lat = JNum (Num (- 33.25)), lng = JNum (Num (- 70.5)),
         severity = ''low'', magnitude = Some (round_double 3),
         time = Some 1700000000500, source = ''USGS Earthquake Hazards''\<rparr>]"
    by (simp add: strong_quake_def weak_quake_def equator_quake_def at_index_def toFixed1_def)
  moreover have "round_double 6.6 = Num (7430939385161318 / 2 ^ 50)"
    by (simp add: round_eval)
  moreover have "round_double 3 = Num 3"
    by (simp add: round_eval)
  ultimately show ?thesis
    using strong weak by simp
qed

text \<open>
  Claim C9. The filter of the seismic adapter keeps an incident only when both
  coordinates are truthy, and the number 0 is falsy: a record with valid numeric
  coordinates on the equator is mapped to an incident and then dropped, and no incident
  the adapter returns has latitude 0 or longitude 0.
\<close>

theorem fetchUSGS_drops_zero_coordinates:
  "fetchUSGS (Inr [equator_quake]) = Fulfilled []
   \<and> at_index (f_coordinates equator_quake) 1 = JNum (Num 0)
   \<and> at_index (f_coordinates equator_quake) 0 = JNum (Num 100.5)
   \<and> (\<exists>i. usgs_incident equator_quake = Inr i)
   \<and> (\<forall>features out i. fetchUSGS (Inr features) = Fulfilled out \<and> i \<in> set out \<longrightarrow>
        truthy (lat i) \<and> truthy (lng i) \<and> lat i \<noteq> JNum (Num 0) \<and> lng i \<noteq> JNum (Num 0))
   \<and> (\<forall>features out f i. fetchUSGS (Inr features) = Fulfilled out \<and> usgs_incident f = Inr i \<and>
        (at_index (f_coordinates f) 1 = JNum (Num 0) \<or> at_index (f_coordinates f) 0 = JNum (Num 0))
        \<longrightarrow> i \<notin> set out)"
proof -
  have eq: "fetchUSGS (Inr [equator_quake]) = Fulfilled []"
    by (simp add: fetchUSGS_def equator_quake_incident)
  have kept: "truthy (lat i) \<and> truthy (lng i) \<and> lat i \<noteq> JNum (Num 0) \<and> lng i \<noteq> JNum (Num 0)"
    if "fetchUSGS (Inr features) = Fulfilled out \<and> i \<in> set out" for features out i
    using that fetchUSGS_origin [of features out i] by auto
  have "i \<notin> set out"
    if "fetchUSGS (Inr features) = Fulfilled out \<and> usgs_incident f = Inr i \<and>
        (at_index (f_coordinates f) 1 = JNum (Num 0) \<or> at_index (f_coordinates f) 0 = JNum (Num 0))"
    for features out f i
    using that usgs_incident_fields [of f i] kept [of features out i] by auto
  with eq kept equator_quake_incident show ?thesis
    by (simp add: equator_quake_def at_index_def)
qed

theorem fetchUSGS_drops_zero_coordinates_witness:
  "(\<exists>out. fetchUSGS (Inr [strong_quake, equator_quake]) = Fulfilled out \<and> length out = 1
      \<and> truthy (lat (out ! 0)) \<and> truthy (lng (out ! 0)) \<and> ident (out ! 0) = ''usgs_us7000'')
   \<and> fetchUSGS (Inr [equator_quake]) = Fulfilled []"
proof -
  let ?i = "\<lparr>ident = ''usgs_us7000'', itype = ''earthquake'', title = ''M 6.6 - Off the coast'',
          location = ''Off the coast'', lat = JNum (Num 38.25), lng = JNum (Num 142.5),
          severity = ''critical'', magnitude = Some (round_double 6.6),
          time = Some 1700000000000,
          source = ''USGS Earthquake Hazards''\<rparr>"
  note T = fetchUSGS_drops_zero_coordinates
  have h: "fetchUSGS (Inr [strong_quake, equator_quake]) = Fulfilled [?i] \<and> ?i \<in> set [?i]"
    by (simp add: fetchUSGS_sample)
  from T [THEN conjunct2, THEN conjunct2, THEN conjunct2, THEN conjunct2, THEN conjunct1,
      rule_format, OF h]
  have "truthy (lat ?i) \<and> truthy (lng ?i)"
    by simp
  moreover from T have "fetchUSGS (Inr [equator_quake]) = Fulfilled []"
    by (rule conjunct1)
  ultimately show ?thesis
    using h by auto
qed

section \<open>Proofs: the satellite-event adapter\<close>

lemma sevMap_lookup:
  "lookup_or sevMap ty ''moderate'' =
     (if ty = ''tsunami'' then ''critical''
      else if ty = ''fire'' \<or> ty = ''volcano'' \<or> ty = ''storm'' then ''high''
      else ''moderate'')"
  by (simp add: lookup_or_def sevMap_def)

lemma category_severity:
  "lookup_or sevMap (mapped_type category) ''moderate'' =
     (if category = ''Tsunamis'' then ''critical''
      else if category = ''Wildfires'' \<or> category = ''Volcanoes'' \<or> category = ''Severe Storms''
      then ''high'' else ''moderate'')"
  unfolding sevMap_lookup
  by (simp add: mapped_type_def inherited_keys_def inherited_value_def lookup_or_def typeMap_def)

lemma destructure_pair_Inr:
  "destructure_pair v = Inr (a, b) \<Longrightarrow> \<exists>cs. v = JArr cs \<and> a = at_index cs 0 \<and> b = at_index cs 1"
  by (cases v) auto

lemma index0_arr: "index0 v = Inr (JArr ys) \<Longrightarrow> \<exists>xs. v = JArr xs \<and> at_index xs 0 = JArr ys"
  by (cases v) auto

lemma geometry_position_Some:
  "geometry_position geo = Inr (Some (a, b)) \<Longrightarrow>
   (g_type geo = ''Point'' \<and>
      (\<exists>cs. g_coordinates geo = JArr cs \<and> a = at_index cs 0 \<and> b = at_index cs 1))
   \<or> (g_type geo = ''Polygon'' \<and>
      (\<exists>rings ring vertex. g_coordinates geo = JArr rings \<and> at_index rings 0 = JArr ring \<and>
         at_index ring 0 = JArr vertex \<and> a = at_index vertex 0 \<and> b = at_index vertex 1))"
  unfolding geometry_position_def
  by (auto split: if_splits sum.splits dest!: destructure_pair_Inr index0_arr)

lemma nasa_event_Some:
  "nasa_event now event = Inr (Some i) \<Longrightarrow>
   \<exists>geo. last_geometry event = Some geo \<and> geometry_position geo = Inr (Some (lng i, lat i)) \<and>
     \<not> isNaN (lat i) \<and> \<not> isNaN (lng i) \<and>
     time i = Some (case g_date geo of None \<Rightarrow> now | Some d \<Rightarrow> d) \<and>
     itype i = mapped_type (event_category event) \<and>
     severity i = lookup_or sevMap (itype i) ''moderate''"
  unfolding nasa_event_def Let_def
  by (auto split: option.splits if_splits sum.splits prod.splits)

lemma nasa_event_sound:
  assumes "nasa_event now event = Inr (Some i)"
  shows "e_geometry event \<noteq> []
     \<and> ((g_type (last (e_geometry event)) = ''Point'' \<and>
           (\<exists>cs. g_coordinates (last (e_geometry event)) = JArr cs \<and>
                 lng i = at_index cs 0 \<and> lat i = at_index cs 1))
        \<or> (g_type (last (e_geometry event)) = ''Polygon'' \<and>
           (\<exists>rings ring vertex.
              g_coordinates (last (e_geometry event)) = JArr rings \<and>
              at_index rings 0 = JArr ring \<and> at_index ring 0 = JArr vertex \<and>
              lng i = at_index vertex 0 \<and> lat i = at_index vertex 1)))
     \<and> time i = Some (case g_date (last (e_geometry event)) of None \<Rightarrow> now | Some d \<Rightarrow> d)
     \<and> itype i = mapped_type (event_category event)
     \<and> severity i =
         (if itype i = ''tsunami'' then ''critical''
          else if itype i = ''fire'' \<or> itype i = ''volcano'' \<or> itype i = ''storm'' then ''high''
          else ''moderate'')"
proof -
  from nasa_event_Some [OF assms] obtain geo where
    geo: "last_geometry event = Some geo"
    and pos: "geometry_position geo = Inr (Some (lng i, lat i))"
    and rest: "time i = Some (case g_date geo of None \<Rightarrow> now | Some d \<Rightarrow> d)"
      "itype i = mapped_type (event_category event)"
      "severity i = lookup_or sevMap (itype i) ''moderate''"
    by blast
  from geo have ne: "e_geometry event \<noteq> []" and last: "geo = last (e_geometry event)"
    by (auto simp: last_geometry_def split: if_splits)
  from geometry_position_Some [OF pos] ne rest show ?thesis
    unfolding last sevMap_lookup by simp
qed

lemma nasa_event_point:
  assumes "e_geometry event \<noteq> []"
    and "g_type (last (e_geometry event)) = ''Point''"
    and "g_coordinates (last (e_geometry event)) = JArr (x # y # rest)"
    and "\<not> isNaN x" and "\<not> isNaN y"
  shows "nasa_event now event =
     Inr (Some \<lparr>ident = ''nasa_'' @ e_id event,
                itype = mapped_type (event_category event),
                title = e_title event, location = e_title event, lat = y, lng = x,
                severity = lookup_or sevMap (mapped_type (event_category event)) ''moderate'',
                magnitude = None,
                time = Some (case g_date (last (e_geometry event)) of
                               None \<Rightarrow> now | Some d \<Rightarrow> d),
                source = ''NASA EONET''\<rparr>)"
  using assms
  by (simp add: nasa_event_def Let_def last_geometry_def geometry_position_def at_index_def)

lemma nasa_event_polygon:
  assumes "e_geometry event \<noteq> []"
    and "g_type (last (e_geometry event)) = ''Polygon''"
    and "g_coordinates (last (e_geometry event)) = JArr (JArr (JArr (x # y # rest) # vs) # rings)"
    and "\<not> isNaN x" and "\<not> isNaN y"
  shows "nasa_event now event =
     Inr (Some \<lparr>ident = ''nasa_'' @ e_id event,
                itype = mapped_type (event_category event),
                title = e_title event, location = e_title event, lat = y, lng = x,
                severity = lookup_or sevMap (mapped_type (event_category event)) ''moderate'',
                magnitude = None,
                time = Some (case g_date (last (e_geometry event)) of
                               None \<Rightarrow> now | Some d \<Rightarrow> d),
                source = ''NASA EONET''\<rparr>)"
  using assms
  by (simp add: nasa_event_def Let_def last_geometry_def geometry_position_def at_index_def)

lemma eonet_loop_all2:
  "list_all2 (\<lambda>e r. nasa_event now e = Inr r) events rs \<Longrightarrow>
   eonet_loop now events results =
     Inr (results @ concat (map (\<lambda>r. case r of None \<Rightarrow> [] | Some i \<Rightarrow> [i]) rs))"
proof (induction events rs arbitrary: results rule: list_all2_induct)
  case Nil
  then show ?case by simp
next
  case (Cons e events r rs)
  then show ?case
    by (cases r) simp_all
qed

lemma fetchNASAEONET_all2:
  "list_all2 (\<lambda>e r. nasa_event now e = Inr r) events rs \<Longrightarrow>
   fetchNASAEONET now (Inr events) =
     Fulfilled (concat (map (\<lambda>r. case r of None \<Rightarrow> [] | Some i \<Rightarrow> [i]) rs))"
  by (simp add: fetchNASAEONET_def eonet_loop_all2)

lemmas nasa_eval_defs =
  nasa_event_def event_category_def mapped_type_def inherited_keys_def lookup_or_def typeMap_def
  sevMap_def last_geometry_def geometry_position_def at_index_def isNaN_def Let_def

lemma unlocated_event_kept:
  "fetchNASAEONET 999 (Inr [unlocated_event]) =
    Fulfilled [\<lparr>ident = ''nasa_EONET_3'', itype = ''flood'', title = ''Flood'',
      location = ''Flood'', lat = JNull, lng = JNull,
      severity = ''moderate'', magnitude = None, time = Some 300, source = ''NASA EONET''\<rparr>]"
  by (simp add: fetchNASAEONET_def nasa_eval_defs unlocated_event_def)

lemma unlocated_quake_dropped: "fetchUSGS (Inr [unlocated_quake]) = Fulfilled []"
  by (simp add: fetchUSGS_def usgs_incident_def unlocated_quake_def at_index_def)

text \<open>
  Claim C7. The satellite-event adapter builds its incident from the last entry of the
  geometry sequence of an event, however many entries come before it: from a Point whose
  coordinates are two numbers the longitude and latitude are those two, from a Polygon
  they are the first vertex of its first ring, and the time is the date of that entry.
  The severity is read from the severity table under the mapped type: critical for
  tsunami, high for fire, volcano and storm, moderate for flood and everything else.
  When every event of a feed is pushed or skipped without an error, the adapter returns
  the pushed incidents in the order of the feed. And whenever an incident is built, it
  was built in one of these two ways.
\<close>

theorem nasa_event_last_geometry:
  "(\<forall>event i. nasa_event now event = Inr (Some i) \<longrightarrow>
     e_geometry event \<noteq> []
     \<and> ((g_type (last (e_geometry event)) = ''Point'' \<and>
           (\<exists>cs. g_coordinates (last (e_geometry event)) = JArr cs \<and>
                 lng i = at_index cs 0 \<and> lat i = at_index cs 1))
        \<or> (g_type (last (e_geometry event)) = ''Polygon'' \<and>
           (\<exists>rings ring vertex.
              g_coordinates (last (e_geometry event)) = JArr rings \<and>
              at_index rings 0 = JArr ring \<and> at_index ring 0 = JArr vertex \<and>
              lng i = at_index vertex 0 \<and> lat i = at_index vertex 1)))
     \<and> time i = Some (case g_date (last (e_geometry event)) of None \<Rightarrow> now | Some d \<Rightarrow> d)
     \<and> itype i = mapped_type (event_category event)
     \<and> severity i =
         (if itype i = ''tsunami'' then ''critical''
          else if itype i = ''fire'' \<or> itype i = ''volcano'' \<or> itype i = ''storm'' then ''high''
          else ''moderate''))
   \<and> (\<forall>event x y rest.
        e_geometry event \<noteq> [] \<and> g_type (last (e_geometry event)) = ''Point'' \<and>
        g_coordinates (last (e_geometry event)) = JArr (x # y # rest) \<and>
        \<not> isNaN x \<and> \<not> isNaN y \<longrightarrow>
        nasa_event now event =
          Inr (Some \<lparr>ident = ''nasa_'' @ e_id event,
                     itype = mapped_type (event_category event),
                     title = e_title event, location = e_title event, lat = y, lng = x,
                     severity = lookup_or sevMap (mapped_type (event_category event)) ''moderate'',
                     magnitude = None,
                     time = Some (case g_date (last (e_geometry event)) of
                                    None \<Rightarrow> now | Some d \<Rightarrow> d),
                     source = ''NASA EONET''\<rparr>))
   \<and> (\<forall>event x y rest vs rings.
        e_geometry event \<noteq> [] \<and> g_type (last (e_geometry event)) = ''Polygon'' \<and>
        g_coordinates (last (e_geometry event)) = JArr (JArr (JArr (x # y # rest) # vs) # rings) \<and>
        \<not> isNaN x \<and> \<not> isNaN y \<longrightarrow>
        nasa_event now event =
          Inr (Some \<lparr>ident = ''nasa_'' @ e_id event,
                     itype = mapped_type (event_category event),
                     title = e_title event, location = e_title event, lat = y, lng = x,
                     severity = lookup_or sevMap (mapped_type (event_category event)) ''moderate'',
                     magnitude = None,
                     time = Some (case g_date (last (e_geometry event)) of
                                    None \<Rightarrow> now | Some d \<Rightarrow> d),
                     source = ''NASA EONET''\<rparr>))
   \<and> (\<forall>events rs.
        list_all2 (\<lambda>e r. nasa_event now e = Inr r) events rs \<longrightarrow>
        fetchNASAEONET now (Inr events) =
          Fulfilled (concat (map (\<lambda>r. case r of None \<Rightarrow> [] | Some i \<Rightarrow> [i]) rs)))
   \<and> (\<forall>ty. lookup_or sevMap ty ''moderate'' =
         (if ty = ''tsunami'' then ''critical''
          else if ty = ''fire'' \<or> ty = ''volcano'' \<or> ty = ''storm'' then ''high''
          else ''moderate''))
   \<and> (\<forall>category. lookup_or sevMap (mapped_type category) ''moderate'' =
         (if category = ''Tsunamis'' then ''critical''
          else if category = ''Wildfires'' \<or> category = ''Volcanoes'' \<or>
                  category = ''Severe Storms''
          then ''high'' else ''moderate''))"
proof -
  have sound: "\<forall>event i. nasa_event now event = Inr (Some i) \<longrightarrow>
     e_geometry event \<noteq> []
     \<and> ((g_type (last (e_geometry event)) = ''Point'' \<and>
           (\<exists>cs. g_coordinates (last (e_geometry event)) = JArr cs \<and>
                 lng i = at_index cs 0 \<and> lat i = at_index cs 1))
        \<or> (g_type (last (e_geometry event)) = ''Polygon'' \<and>
           (\<exists>rings ring vertex.
              g_coordinates (last (e_geometry event)) = JArr rings \<and>
              at_index rings 0 = JArr ring \<and> at_index ring 0 = JArr vertex \<and>
              lng i = at_index vertex 0 \<and> lat i = at_index vertex 1)))
     \<and> time i = Some (case g_date (last (e_geometry event)) of None \<Rightarrow> now | Some d \<Rightarrow> d)
     \<and> itype i = mapped_type (event_category event)
     \<and> severity i =
         (if itype i = ''tsunami'' then ''critical''
          else if itype i = ''fire'' \<or> itype i = ''volcano'' \<or> itype i = ''storm'' then ''high''
          else ''moderate'')"
    by (intro allI impI) (rule nasa_event_sound)
  have point: "\<forall>event x y rest.
        e_geometry event \<noteq> [] \<and> g_type (last (e_geometry event)) = ''Point'' \<and>
        g_coordinates (last (e_geometry event)) = JArr (x # y # rest) \<and>
        \<not> isNaN x \<and> \<not> isNaN y \<longrightarrow>
        nasa_event now event =
          Inr (Some \<lparr>ident = ''nasa_'' @ e_id event,
                     itype = mapped_type (event_category event),
                     title = e_title event, location = e_title event, lat = y, lng = x,
                     severity = lookup_or sevMap (mapped_type (event_category event)) ''moderate'',
                     magnitude = None,
                     time = Some (case g_date (last (e_geometry event)) of
                                    None \<Rightarrow> now | Some d \<Rightarrow> d),
                     source = ''NASA EONET''\<rparr>)"
    by (intro allI impI, elim conjE) (rule nasa_event_point)
  have polygon: "\<forall>event x y rest vs rings.
        e_geometry event \<noteq> [] \<and> g_type (last (e_geometry event)) = ''Polygon'' \<and>
        g_coordinates (last (e_geometry event)) = JArr (JArr (JArr (x # y # rest) # vs) # rings) \<and>
        \<not> isNaN x \<and> \<not> isNaN y \<longrightarrow>
        nasa_event now event =
          Inr (Some \<lparr>ident = ''nasa_'' @ e_id event,
                     itype = mapped_type (event_category event),
                     title = e_title event, location = e_title event, lat = y, lng = x,
                     severity = lookup_or sevMap (mapped_type (event_category event)) ''moderate'',
                     magnitude = None,
                     time = Some (case g_date (last (e_geometry event)) of
                                    None \<Rightarrow> now | Some d \<Rightarrow> d),
                     source = ''NASA EONET''\<rparr>)"
    by (intro allI impI, elim conjE) (rule nasa_event_polygon)
  have adapter: "\<forall>events rs.
        list_all2 (\<lambda>e r. nasa_event now e = Inr r) events rs \<longrightarrow>
        fetchNASAEONET now (Inr events) =
          Fulfilled (concat (map (\<lambda>r. case r of None \<Rightarrow> [] | Some i \<Rightarrow> [i]) rs))"
    by (intro allI impI) (rule fetchNASAEONET_all2)
  have by_type: "\<forall>ty. lookup_or sevMap ty ''moderate'' =
         (if ty = ''tsunami'' then ''critical''
          else if ty = ''fire'' \<or> ty = ''volcano'' \<or> ty = ''storm'' then ''high''
          else ''moderate'')"
    by (intro allI) (rule sevMap_lookup)
  have by_category: "\<forall>category. lookup_or sevMap (mapped_type category) ''moderate'' =
         (if category = ''Tsunamis'' then ''critical''
          else if category = ''Wildfires'' \<or> category = ''Volcanoes'' \<or>
                  category = ''Severe Storms''
          then ''high'' else ''moderate'')"
    by (intro allI) (rule category_severity)
  show ?thesis
    by (intro conjI sound point polygon adapter by_type by_category)
qed

theorem nasa_event_last_geometry_witness:
  "fetchNASAEONET 999 (Inr [tracked_storm, untracked_event, burning_area]) =
     Fulfilled
       [\<lparr>ident = ''nasa_EONET_1'', itype = ''storm'', title = ''Tropical Storm'',
         location = ''Tropical Storm'', lat = JNum (Num 25), lng = JNum (Num (- 60.5)),
         severity = ''high'', magnitude = None, time = Some 200, source = ''NASA EONET''\<rparr>,
        \<lparr>ident = ''nasa_EONET_2'', itype = ''fire'', title = ''Wildfire'',
         location = ''Wildfire'', lat = JNum (Num 40), lng = JNum (Num 30),
         severity = ''high'', magnitude = None, time = Some 999, source = ''NASA EONET''\<rparr>]
   \<and> length (e_geometry tracked_storm) = 3
   \<and> g_coordinates (last (e_geometry tracked_storm)) = JArr [JNum (Num (- 60.5)), JNum (Num 25)]
   \<and> g_coordinates (hd (e_geometry tracked_storm)) = JArr [JNum (Num 1), JNum (Num 2)]"
proof -
  note T = nasa_event_last_geometry [of 999]
  have storm_geo: "e_geometry tracked_storm \<noteq> [] \<and>
      g_type (last (e_geometry tracked_storm)) = ''Point'' \<and>
      g_coordinates (last (e_geometry tracked_storm)) =
        JArr (JNum (Num (- 60.5)) # JNum (Num 25) # []) \<and>
      \<not> isNaN (JNum (Num (- 60.5))) \<and> \<not> isNaN (JNum (Num 25))"
    by (simp add: tracked_storm_def isNaN_def)
  have fire_geo: "e_geometry burning_area \<noteq> [] \<and>
      g_type (last (e_geometry burning_area)) = ''Polygon'' \<and>
      g_coordinates (last (e_geometry burning_area)) =
        JArr (JArr (JArr (JNum (Num 30) # JNum (Num 40) # []) #
                [JArr [JNum (Num 31), JNum (Num 41)], JArr [JNum (Num 30), JNum (Num 40)]]) # []) \<and>
      \<not> isNaN (JNum (Num 30)) \<and> \<not> isNaN (JNum (Num 40))"
    by (simp add: burning_area_def isNaN_def)
  from T [THEN conjunct2, THEN conjunct1, rule_format, OF storm_geo]
  have storm: "nasa_event 999 tracked_storm =
      Inr (Some \<lparr>ident = ''nasa_EONET_1'', itype = ''storm'', title = ''Tropical Storm'',
         location = ''Tropical Storm'', lat = JNum (Num 25), lng = JNum (Num (- 60.5)),
         severity = ''high'', magnitude = None, time = Some 200, source = ''NASA EONET''\<rparr>)"
    by (simp add: tracked_storm_def event_category_def mapped_type_def inherited_keys_def
        lookup_or_def typeMap_def sevMap_def)
  from T [THEN conjunct2, THEN conjunct2, THEN conjunct1, rule_format, OF fire_geo]
  have fire: "nasa_event 999 burning_area =
      Inr (Some \<lparr>ident = ''nasa_EONET_2'', itype = ''fire'', title = ''Wildfire'',
         location = ''Wildfire'', lat = JNum (Num 40), lng = JNum (Num 30),
         severity = ''high'', magnitude = None, time = Some 999, source = ''NASA EONET''\<rparr>)"
    by (simp add: burning_area_def event_category_def mapped_type_def inherited_keys_def
        lookup_or_def typeMap_def sevMap_def)
  have skipped: "nasa_event 999 untracked_event = Inr None"
    by (simp add: nasa_event_def untracked_event_def last_geometry_def Let_def)
  have all: "list_all2 (\<lambda>e r. nasa_event 999 e = Inr r)
      [tracked_storm, untracked_event, burning_area]
      [Some \<lparr>ident = ''nasa_EONET_1'', itype = ''storm'', title = ''Tropical Storm'',
         location = ''Tropical Storm'', lat = JNum (Num 25), lng = JNum (Num (- 60.5)),
         severity = ''high'', magnitude = None, time = Some 200, source = ''NASA EONET''\<rparr>,
       None,
       Some \<lparr>ident = ''nasa_EONET_2'', itype = ''fire'', title = ''Wildfire'',
         location = ''Wildfire'', lat = JNum (Num 40), lng = JNum (Num 30),
         severity = ''high'', magnitude = None, time = Some 999, source = ''NASA EONET''\<rparr>]"
    by (simp only: list_all2_Cons list_all2_Nil storm fire skipped simp_thms)
  from T [THEN conjunct2, THEN conjunct2, THEN conjunct2, THEN conjunct1, rule_format, OF all]
  have "fetchNASAEONET 999 (Inr [tracked_storm, untracked_event, burning_area]) =
     Fulfilled
       [\<lparr>ident = ''nasa_EONET_1'', itype = ''storm'', title = ''Tropical Storm'',
         location = ''Tropical Storm'', lat = JNum (Num 25), lng = JNum (Num (- 60.5)),
         severity = ''high'', magnitude = None, time = Some 200, source = ''NASA EONET''\<rparr>,
        \<lparr>ident = ''nasa_EONET_2'', itype = ''fire'', title = ''Wildfire'',
         location = ''Wildfire'', lat = JNum (Num 40), lng = JNum (Num 30),
         severity = ''high'', magnitude = None, time = Some 999, source = ''NASA EONET''\<rparr>]"
    by simp
  moreover have "length (e_geometry tracked_storm) = 3
   \<and> g_coordinates (last (e_geometry tracked_storm)) = JArr [JNum (Num (- 60.5)), JNum (Num 25)]
   \<and> g_coordinates (hd (e_geometry tracked_storm)) = JArr [JNum (Num 1), JNum (Num 2)]"
    by (simp add: tracked_storm_def)
  ultimately show ?thesis
    by blast
qed

text \<open>
  Claim C5, at the input where the code departs from it. An event whose last geometry is
  a Point with coordinates \<open>[null, null]\<close> passes the test \<open>isNaN(lat) || isNaN(lng)\<close>
  of the satellite-event adapter, since \<open>null\<close> converts to 0: the adapter returns an
  incident with latitude and longitude \<open>null\<close>, and the aggregation serves it. The
  seismic adapter drops a record with the same coordinates.
\<close>

theorem fetchNASAEONET_keeps_null_coordinates:
  "g_coordinates (last (e_geometry unlocated_event)) = JArr [JNull, JNull]
   \<and> fetchNASAEONET 999 (Inr [unlocated_event]) =
       Fulfilled [\<lparr>ident = ''nasa_EONET_3'', itype = ''flood'', title = ''Flood'',
         location = ''Flood'', lat = JNull, lng = JNull,
         severity = ''moderate'', magnitude = None, time = Some 300, source = ''NASA EONET''\<rparr>]
   \<and> incidents (aggregateAllSources
        \<lparr>usgs_result = fetchUSGS (Inr [unlocated_quake]),
         nasa_result = fetchNASAEONET 999 (Inr [unlocated_event]),
         gdacs_result = Fulfilled [], reliefweb_result = Fulfilled [],
         reddit_result = Fulfilled []\<rparr> 1000) =
       [\<lparr>ident = ''nasa_EONET_3'', itype = ''flood'', title = ''Flood'',
         location = ''Flood'', lat = JNull, lng = JNull,
         severity = ''moderate'', magnitude = None, time = Some 300, source = ''NASA EONET''\<rparr>]
   \<and> at_index (f_coordinates unlocated_quake) 1 = JNull
   \<and> at_index (f_coordinates unlocated_quake) 0 = JNull
   \<and> fetchUSGS (Inr [unlocated_quake]) = Fulfilled []"
  by (simp add: unlocated_event_kept unlocated_quake_dropped aggregateAllSources_def
      collect_settled contribution_def deduplicateIncidents_def rankIncidents_def js_sort_def)
    (simp add: unlocated_event_def unlocated_quake_def at_index_def)

section \<open>Proofs: the social-text adapter\<close>

text \<open>
  Claim C8. When the client id is not set (or is empty), the social-text adapter is
  fulfilled with the empty list and leaves the token alone; it does not reject. In the
  aggregation this shows as a successful source with count 0, and the incidents served
  are those of the other four sources.
\<close>

theorem fetchRedditPosts_without_credentials:
  "REDDIT_CLIENT_ID env = None \<or> REDDIT_CLIENT_ID env = Some [] \<Longrightarrow>
     fetchRedditPosts env w st = (Fulfilled [], st)
     \<and> (\<forall>r now. reddit_result r = fst (fetchRedditPosts env w st) \<longrightarrow>
          sourceStatus (aggregateAllSources r now) ''Reddit'' = Some (StatusOk 0)
          \<and> incidents (aggregateAllSources r now) =
              rankIncidents (deduplicateIncidents
                (contribution (usgs_result r) @ contribution (nasa_result r) @
                 contribution (gdacs_result r) @ contribution (reliefweb_result r))))"
proof -
  assume "REDDIT_CLIENT_ID env = None \<or> REDDIT_CLIENT_ID env = Some []"
  then have "fetchRedditPosts env w st = (Fulfilled [], st)"
    by (auto simp: fetchRedditPosts_def env_set_def)
  then show ?thesis
    by (simp add: aggregateAllSources_def collect_settled contribution_def status_entry_def)
qed

theorem fetchRedditPosts_without_credentials_witness:
  "fetchRedditPosts no_credentials failing_world initial_token_state =
     (Fulfilled [], initial_token_state)
   \<and> REDDIT_CLIENT_ID no_credentials = None
   \<and> fetchRedditPosts \<lparr>REDDIT_CLIENT_ID = Some ''id'', REDDIT_CLIENT_SECRET = Some ''secret''\<rparr>
        failing_world initial_token_state =
     (Rejected (NetworkError ''401''), initial_token_state)"
proof -
  have unset: "REDDIT_CLIENT_ID no_credentials = None \<or> REDDIT_CLIENT_ID no_credentials = Some []"
    by (simp add: no_credentials_def)
  from fetchRedditPosts_without_credentials [OF unset, of failing_world initial_token_state]
  have "fetchRedditPosts no_credentials failing_world initial_token_state =
     (Fulfilled [], initial_token_state)"
    by (rule conjunct1)
  moreover have "fetchRedditPosts
        \<lparr>REDDIT_CLIENT_ID = Some ''id'', REDDIT_CLIENT_SECRET = Some ''secret''\<rparr>
        failing_world initial_token_state =
     (Rejected (NetworkError ''401''), initial_token_state)"
    by (simp add: fetchRedditPosts_def env_set_def getRedditToken_def failing_world_def
        initial_token_state_def)
  ultimately show ?thesis
    by (simp add: no_credentials_def)
qed

end
